theory Spec2Isabelle
  imports Main
begin

section \<open>JavaScript values\<close>

text \<open>
  An optional string property is a \<open>string option\<close>: \<open>None\<close> is \<open>undefined\<close> or
  \<open>null\<close>. JavaScript tests such a value for truthiness: absent and empty strings are
  falsy.
\<close>

definition truthy :: "string option \<Rightarrow> bool" where
  "truthy v = (case v of None \<Rightarrow> False | Some s \<Rightarrow> s \<noteq> [])"

text \<open>\<open>a || d\<close> on an optional string with a string default.\<close>

definition js_or :: "string option \<Rightarrow> string \<Rightarrow> string" where
  "js_or v d = (case v of None \<Rightarrow> d | Some s \<Rightarrow> if s = [] then d else s)"

text \<open>\<open>String.prototype.includes\<close>.\<close>

fun startsWith :: "string \<Rightarrow> string \<Rightarrow> bool" where
  "startsWith s [] = True"
| "startsWith [] (c # cs) = False"
| "startsWith (d # ds) (c # cs) = (d = c \<and> startsWith ds cs)"

fun js_includes :: "string \<Rightarrow> string \<Rightarrow> bool" where
  "js_includes [] sub = (sub = [])"
| "js_includes (d # ds) sub = (startsWith (d # ds) sub \<or> js_includes ds sub)"

text \<open>The decimal rendering of a number inside a template string.\<close>

definition digit :: "nat \<Rightarrow> char" where
  "digit d = char_of (48 + d)"

fun toString :: "nat \<Rightarrow> string" where
  "toString n = (if n < 10 then [digit n] else toString (n div 10) @ [digit (n mod 10)])"

declare toString.simps [simp del]

text \<open>
  An \<open>Error\<close> object, with the properties the callers inspect. \<open>new Error(m)\<close> has the
  message only.
\<close>

record js_error =
  err_message :: string
  err_code :: "nat option"
  err_status :: "nat option"
  err_statusCode :: "nat option"

definition new_Error :: "string \<Rightarrow> js_error" where
  "new_Error m = \<lparr>err_message = m, err_code = None, err_status = None, err_statusCode = None\<rparr>"

text \<open>
  Reading a property of \<open>undefined\<close> or \<open>null\<close> throws a \<open>TypeError\<close>; the wording of
  its message is the engine's.
\<close>

definition TypeError :: "string \<Rightarrow> string \<Rightarrow> js_error" where
  "TypeError base prop =
     new_Error (''Cannot read properties of '' @ base @ '' (reading '' @ prop @ '')'')"

section \<open>The provider and the store as an environment\<close>

text \<open>
  The body of an HTTP response, as far as the program reads it: the properties of the
  JSON object that some caller accesses.
\<close>

record processing_info =
  state :: string
  check_after_secs :: "nat option"

record api_json =
  data_id :: "string option option"  \<comment> \<open>\<open>data.id\<close>; \<open>None\<close> when \<open>data\<close> is missing\<close>
  errors0_message :: "string option"  \<comment> \<open>\<open>errors?.[0]?.message\<close>\<close>
  detail :: "string option"
  processing_info :: "processing_info option"
  access_token :: "string option"
  refresh_token :: "string option"
  expires_in :: "nat option"
  error_description :: "string option"

datatype json_body =
    Unparsable string  \<comment> \<open>\<open>response.json()\<close> rejects with this message\<close>
  | JsonNull
  | JsonObject api_json

record response =
  http_status :: nat
  statusText :: string
  content_type :: "string option"  \<comment> \<open>\<open>headers.get('content-type')\<close>\<close>
  content_length :: "string option"
  body_text :: string  \<comment> \<open>what \<open>response.text()\<close> resolves to\<close>
  json :: json_body  \<comment> \<open>what \<open>response.json()\<close> resolves to\<close>

definition ok :: "response \<Rightarrow> bool" where
  "ok r = (200 \<le> http_status r \<and> http_status r \<le> 299)"

record payload =
  p_text :: "string option"
  media_ids :: "string list option"
  in_reply_to_tweet_id :: "string option"

text \<open>
  Every call that leaves the process: the fetches of \<open>mediaUpload.js\<close> and \<open>utils.js\<close>
  and the two Firestore writes of the service. Bearer tokens are part of the request.
\<close>

datatype request =
    HeadImage string  \<comment> \<open>\<open>fetch(imageUrl, {method: 'HEAD'})\<close>\<close>
  | MediaInit string string string  \<comment> \<open>bearer token, \<open>total_bytes\<close>, \<open>media_type\<close>\<close>
  | GetImage string
  | MediaAppend string string  \<comment> \<open>bearer token, \<open>media_id\<close>\<close>
  | MediaFinalize string string
  | MediaStatus string string
  | PostTweets string payload  \<comment> \<open>bearer token, JSON body\<close>
  | OAuthToken string string "string option"  \<comment> \<open>client id, client secret, \<open>refresh_token\<close>\<close>
  | UpdateCredentials string string string  \<comment> \<open>user id, access token, refresh token\<close>
  | UpdateTweetStatus string "string option" string "string option"
      \<comment> \<open>project id, tweet id, \<open>publishedTweetId\<close>, \<open>publishedText\<close>\<close>

datatype outcome = Rejects string | Resolves response

text \<open>
  The outside world answers a request depending on everything requested before. The
  history of requests is the only state of the model; a call appends to it.
\<close>

type_synonym history = "request list"
type_synonym env = "history \<Rightarrow> request \<Rightarrow> outcome"

definition call :: "env \<Rightarrow> request \<Rightarrow> history \<Rightarrow> history \<times> outcome" where
  "call env rq h = (h @ [rq], env h rq)"

section \<open>mediaUpload.js\<close>

text \<open>
  \<open>checkMediaProcessingStatus\<close> polls until the provider stops reporting
  \<open>processing_info\<close> or reports the state \<open>succeeded\<close>. Nothing bounds the number of
  polls, so the function is partial: \<open>None\<close> is a poll loop that never ends. The delay
  between polls is not modelled.
\<close>

partial_function (option) checkMediaProcessingStatus ::
  "env \<Rightarrow> string \<Rightarrow> string \<Rightarrow> processing_info \<Rightarrow> history \<Rightarrow> (history \<times> (js_error + unit)) option"
where
  "checkMediaProcessingStatus env mediaId accessToken processingInfo h =
     (if state processingInfo = ''succeeded'' then Some (h, Inr ())
      else
        (case call env (MediaStatus accessToken mediaId) h of
           (h1, Rejects m) \<Rightarrow> Some (h1, Inl (new_Error m))
         | (h1, Resolves statusResponse) \<Rightarrow>
             if \<not> ok statusResponse then
               Some (h1, Inl (new_Error (''Failed to check media status: ''
                 @ toString (http_status statusResponse) @ '' '' @ statusText statusResponse)))
             else
               (case json statusResponse of
                  Unparsable m \<Rightarrow> Some (h1, Inl (new_Error m))
                | JsonNull \<Rightarrow> Some (h1, Inl (TypeError ''null'' ''processing_info''))
                | JsonObject statusData \<Rightarrow>
                    (case processing_info statusData of
                       Some info \<Rightarrow> checkMediaProcessingStatus env mediaId accessToken info h1
                     | None \<Rightarrow> Some (h1, Inr ())))))"

declare checkMediaProcessingStatus.simps [code]

text \<open>The FINALIZE phase and the wait for processing.\<close>

definition finalize_phase ::
  "env \<Rightarrow> string \<Rightarrow> string \<Rightarrow> history \<Rightarrow> (history \<times> (js_error + string)) option"
where
  "finalize_phase env mediaId accessToken h =
     (case call env (MediaFinalize accessToken mediaId) h of
        (h1, Rejects m) \<Rightarrow> Some (h1, Inl (new_Error m))
      | (h1, Resolves finalizeResponse) \<Rightarrow>
          if \<not> ok finalizeResponse then
            Some (h1, Inl (new_Error (''Media upload finalization failed: '' @ body_text finalizeResponse)))
          else
            (case json finalizeResponse of
               Unparsable m \<Rightarrow> Some (h1, Inl (new_Error m))
             | JsonNull \<Rightarrow> Some (h1, Inl (TypeError ''null'' ''processing_info''))
             | JsonObject finalizeData \<Rightarrow>
                 (case processing_info finalizeData of
                    None \<Rightarrow> Some (h1, Inr mediaId)
                  | Some info \<Rightarrow>
                      (case checkMediaProcessingStatus env mediaId accessToken info h1 of
                         None \<Rightarrow> None
                       | Some (h2, Inl e) \<Rightarrow> Some (h2, Inl e)
                       | Some (h2, Inr u) \<Rightarrow> Some (h2, Inr mediaId)))))"

text \<open>The APPEND phase: the image is fetched and sent as the single segment 0.\<close>

definition append_phase ::
  "env \<Rightarrow> string \<Rightarrow> string \<Rightarrow> string \<Rightarrow> history \<Rightarrow> (history \<times> (js_error + string)) option"
where
  "append_phase env imageUrl mediaId accessToken h =
     (case call env (GetImage imageUrl) h of
        (h1, Rejects m) \<Rightarrow> Some (h1, Inl (new_Error m))
      | (h1, Resolves imageResponse) \<Rightarrow>
          if \<not> ok imageResponse then
            Some (h1, Inl (new_Error (''Failed to fetch image: ''
              @ toString (http_status imageResponse) @ '' '' @ statusText imageResponse)))
          else
            (case call env (MediaAppend accessToken mediaId) h1 of
               (h2, Rejects m) \<Rightarrow> Some (h2, Inl (new_Error m))
             | (h2, Resolves appendResponse) \<Rightarrow>
                 if \<not> ok appendResponse then
                   Some (h2, Inl (new_Error (''Media upload append failed: '' @ body_text appendResponse)))
                 else finalize_phase env mediaId accessToken h2))"

text \<open>The INIT phase, which yields the media id.\<close>

definition init_phase ::
  "env \<Rightarrow> string \<Rightarrow> string \<Rightarrow> string \<Rightarrow> string \<Rightarrow> history \<Rightarrow> (history \<times> (js_error + string)) option"
where
  "init_phase env imageUrl accessToken totalBytes contentType h =
     (case call env (MediaInit accessToken totalBytes contentType) h of
        (h1, Rejects m) \<Rightarrow> Some (h1, Inl (new_Error m))
      | (h1, Resolves initResponse) \<Rightarrow>
          if \<not> ok initResponse then
            Some (h1, Inl (new_Error (''Media upload initialization failed: '' @ body_text initResponse)))
          else
            (case json initResponse of
               Unparsable m \<Rightarrow> Some (h1, Inl (new_Error m))
             | JsonNull \<Rightarrow> Some (h1, Inl (new_Error ''Invalid media upload response from Twitter''))
             | JsonObject initData \<Rightarrow>
                 (case data_id initData of
                    None \<Rightarrow> Some (h1, Inl (TypeError ''undefined'' ''id''))
                  | Some None \<Rightarrow>
                      Some (h1, Inl (new_Error ''Invalid media upload response from Twitter''))
                  | Some (Some mediaId) \<Rightarrow>
                      if mediaId = [] then
                        Some (h1, Inl (new_Error ''Invalid media upload response from Twitter''))
                      else append_phase env imageUrl mediaId accessToken h1)))"

text \<open>
  \<open>uploadMediaToTwitter\<close>: the probe of the image headers, then the three phases. Its
  \<open>catch\<close> rethrows the error it caught. The content length is passed on as the header
  gives it.
\<close>

definition uploadMediaToTwitter ::
  "env \<Rightarrow> string \<Rightarrow> string \<Rightarrow> history \<Rightarrow> (history \<times> (js_error + string)) option"
where
  "uploadMediaToTwitter env imageUrl accessToken h =
     (case call env (HeadImage imageUrl) h of
        (h1, Rejects m) \<Rightarrow> Some (h1, Inl (new_Error m))
      | (h1, Resolves headResponse) \<Rightarrow>
          if \<not> ok headResponse then
            Some (h1, Inl (new_Error (''Failed to get image headers: ''
              @ toString (http_status headResponse) @ '' '' @ statusText headResponse)))
          else
            (case content_length headResponse of
               None \<Rightarrow> Some (h1, Inl (new_Error
                 ''Content length not available, cannot proceed with streaming upload''))
             | Some contentLength \<Rightarrow>
                 if contentLength = [] then
                   Some (h1, Inl (new_Error
                     ''Content length not available, cannot proceed with streaming upload''))
                 else
                   init_phase env imageUrl accessToken contentLength
                     (js_or (content_type headResponse) ''image/jpeg'') h1))"

section \<open>utils.js\<close>

record oauth_credentials =
  accessToken :: string
  refreshToken :: "string option"

text \<open>
  The credentials document. \<open>clientId\<close> and \<open>clientSecret\<close> are the two properties of
  its \<open>credentials\<close> object, which is taken to exist.
\<close>

record twitter_credentials =
  oauthCredentials :: oauth_credentials
  clientId :: string
  clientSecret :: string
  userId :: "string option"

text \<open>
  \<open>publishTweet\<close> of \<open>utils.js\<close>: one POST; a response that is not ok becomes an error
  whose \<open>code\<close> is the HTTP status. A \<open>null\<close> JSON body is returned as \<open>None\<close>.
\<close>

definition publishTweet ::
  "env \<Rightarrow> string \<Rightarrow> payload \<Rightarrow> history \<Rightarrow> history \<times> (js_error + api_json option)"
where
  "publishTweet env token options h =
     (case call env (PostTweets token options) h of
        (h1, Rejects m) \<Rightarrow> (h1, Inl (new_Error m))
      | (h1, Resolves response) \<Rightarrow>
          if \<not> ok response then
            (case json response of
               Unparsable m \<Rightarrow> (h1, Inl (new_Error m))
             | JsonNull \<Rightarrow> (h1, Inl (TypeError ''null'' ''errors''))
             | JsonObject errorData \<Rightarrow>
                 (h1, Inl \<lparr>err_message = js_or (errors0_message errorData)
                                (js_or (detail errorData) ''Failed to publish tweet''),
                           err_code = Some (http_status response),
                           err_status = None, err_statusCode = None\<rparr>))
          else
            (case json response of
               Unparsable m \<Rightarrow> (h1, Inl (new_Error m))
             | JsonNull \<Rightarrow> (h1, Inr None)
             | JsonObject d \<Rightarrow> (h1, Inr (Some d))))"

definition refreshOAuthToken ::
  "env \<Rightarrow> twitter_credentials \<Rightarrow> history \<Rightarrow> history \<times> (js_error + api_json option)"
where
  "refreshOAuthToken env twitterData h =
     (case call env (OAuthToken (clientId twitterData) (clientSecret twitterData)
                       (refreshToken (oauthCredentials twitterData))) h of
        (h1, Rejects m) \<Rightarrow> (h1, Inl (new_Error m))
      | (h1, Resolves response) \<Rightarrow>
          if \<not> ok response then
            (case json response of
               Unparsable m \<Rightarrow> (h1, Inl (new_Error m))
             | JsonNull \<Rightarrow> (h1, Inl (TypeError ''null'' ''error_description''))
             | JsonObject errorData \<Rightarrow>
                 (h1, Inl \<lparr>err_message = js_or (error_description errorData) ''Failed to refresh token'',
                           err_code = Some (http_status response),
                           err_status = None, err_statusCode = None\<rparr>))
          else
            (case json response of
               Unparsable m \<Rightarrow> (h1, Inl (new_Error m))
             | JsonNull \<Rightarrow> (h1, Inr None)
             | JsonObject d \<Rightarrow> (h1, Inr (Some d))))"

text \<open>
  The \<open>catch\<close> of \<open>refreshTwitterAccessToken\<close> wraps whatever was thrown: the message
  (or a default), and \<open>code\<close>, \<open>status\<close>, \<open>statusCode\<close> where they are truthy.
\<close>

definition truthy_num :: "nat option \<Rightarrow> nat option" where
  "truthy_num v = (case v of None \<Rightarrow> None | Some n \<Rightarrow> if n = 0 then None else Some n)"

definition rethrown :: "js_error \<Rightarrow> js_error" where
  "rethrown error =
     \<lparr>err_message = js_or (Some (err_message error)) ''Failed to refresh Twitter access token.'',
      err_code = truthy_num (err_code error),
      err_status = truthy_num (err_status error),
      err_statusCode = truthy_num (err_statusCode error)\<rparr>"

text \<open>The result is the pair of new tokens and \<open>expiresAt\<close>.\<close>

definition refreshTwitterAccessToken ::
  "env \<Rightarrow> twitter_credentials \<Rightarrow> history \<Rightarrow> history \<times> (js_error + string \<times> string \<times> nat option)"
where
  "refreshTwitterAccessToken env twitterCredentials h =
     (case refreshOAuthToken env twitterCredentials h of
        (h1, Inl error) \<Rightarrow> (h1, Inl (rethrown error))
      | (h1, Inr None) \<Rightarrow>
          (h1, Inl (rethrown (new_Error ''Invalid token refresh response format'')))
      | (h1, Inr (Some tokenResponse)) \<Rightarrow>
          (case (access_token tokenResponse, refresh_token tokenResponse) of
             (Some a, Some r) \<Rightarrow>
               if a = [] \<or> r = [] then
                 (h1, Inl (rethrown (new_Error ''Missing tokens in refresh response'')))
               else (h1, Inr (a, r, expires_in tokenResponse))
           | _ \<Rightarrow> (h1, Inl (rethrown (new_Error ''Missing tokens in refresh response'')))))"

section \<open>publishingService.js: media upload with refresh\<close>

text \<open>
  The service writes to two collections. A write resolves or rejects; what it stores is
  in the request.
\<close>

definition updateTwitterCredentials ::
  "env \<Rightarrow> string \<Rightarrow> string \<Rightarrow> string \<Rightarrow> history \<Rightarrow> history \<times> js_error option"
where
  "updateTwitterCredentials env uid newAccessToken newRefreshToken h =
     (case call env (UpdateCredentials uid newAccessToken newRefreshToken) h of
        (h1, Rejects m) \<Rightarrow> (h1, Some (new_Error m))
      | (h1, Resolves r) \<Rightarrow> (h1, None))"

definition updateTweetStatus ::
  "env \<Rightarrow> string \<Rightarrow> string option \<Rightarrow> string \<Rightarrow> string option \<Rightarrow> history
     \<Rightarrow> history \<times> js_error option"
where
  "updateTweetStatus env pid tid publishedId publishedText h =
     (case call env (UpdateTweetStatus pid tid publishedId publishedText) h of
        (h1, Rejects m) \<Rightarrow> (h1, Some (new_Error m))
      | (h1, Resolves r) \<Rightarrow> (h1, None))"

text \<open>The test for an authentication error in \<open>uploadMedia\<close> and in \<open>publishTweetWithRefresh\<close>.\<close>

definition isAuthError :: "js_error \<Rightarrow> bool" where
  "isAuthError error =
     (err_code error = Some 401 \<or> err_status error = Some 401 \<or> err_statusCode error = Some 401
      \<or> js_includes (err_message error) ''401'')"

text \<open>
  \<open>uploadMedia\<close> mutates the credentials object it is given, so the model returns the
  credentials along with the result. The recursive call is returned without \<open>await\<close>:
  its rejection passes the enclosing \<open>catch\<close> by and reaches the caller as it is.
\<close>

function uploadMedia ::
  "env \<Rightarrow> string \<Rightarrow> twitter_credentials \<Rightarrow> nat \<Rightarrow> history
     \<Rightarrow> (history \<times> twitter_credentials \<times> (js_error + string)) option"
where
  "uploadMedia env url twitterCredentials retryCount h =
     (case uploadMediaToTwitter env url (accessToken (oauthCredentials twitterCredentials)) h of
        None \<Rightarrow> None
      | Some (h1, Inr mediaId) \<Rightarrow> Some (h1, twitterCredentials, Inr mediaId)
      | Some (h1, Inl error) \<Rightarrow>
          if isAuthError error \<and> truthy (refreshToken (oauthCredentials twitterCredentials))
             \<and> retryCount < 2
          then
            (case refreshTwitterAccessToken env twitterCredentials h1 of
               (h2, Inl refreshError) \<Rightarrow>
                 Some (h2, twitterCredentials,
                       Inl (new_Error ''Error refreshing Twitter token during media upload''))
             | (h2, Inr (newAccessToken, newRefreshToken, expiresAt)) \<Rightarrow>
                 (case userId twitterCredentials of
                    None \<Rightarrow>
                      Some (h2, twitterCredentials,
                            Inl (new_Error ''Error refreshing Twitter token during media upload''))
                  | Some uid \<Rightarrow>
                      if uid = [] then
                        Some (h2, twitterCredentials,
                              Inl (new_Error ''Error refreshing Twitter token during media upload''))
                      else
                        (case updateTwitterCredentials env uid newAccessToken newRefreshToken h2 of
                           (h3, Some refreshError) \<Rightarrow>
                             Some (h3, twitterCredentials,
                                   Inl (new_Error ''Error refreshing Twitter token during media upload''))
                         | (h3, None) \<Rightarrow>
                             uploadMedia env url
                               (twitterCredentials\<lparr>oauthCredentials :=
                                  \<lparr>accessToken = newAccessToken,
                                   refreshToken = Some newRefreshToken\<rparr>\<rparr>)
                               (retryCount + 1) h3)))
          else Some (h1, twitterCredentials, Inl (new_Error ''Error uploading media'')))"
  by pat_completeness auto
termination
  by (relation "measure (\<lambda>(env, url, twitterCredentials, retryCount, h). 2 - retryCount)") auto

declare uploadMedia.simps [simp del]

section \<open>publishingService.js: publishing one tweet\<close>

text \<open>
  A tweet object, with the properties that the service reads from publish options, from
  the entries of a thread and from the options it builds itself.
\<close>

record tweet =
  tweetId :: "string option"
  projectId :: "string option"
  "text" :: "string option"
  mediaIds :: "string list option"
  replyToTweetId :: "string option"
  imageUrl :: "string option"
  groupId :: "string option"
  threadPosition :: "int option"
  status :: "string option"
  publishedTweetId :: "string option"

definition js_str :: "string option \<Rightarrow> string" where
  "js_str v = (case v of None \<Rightarrow> [] | Some s \<Rightarrow> s)"

text \<open>The payload that \<open>prepareTweetPayload\<close> builds once the media is known.\<close>

definition payload_of :: "tweet \<Rightarrow> payload" where
  "payload_of options =
     \<lparr>p_text = text options,
      media_ids = (case mediaIds options of
                     None \<Rightarrow> None
                   | Some ms \<Rightarrow> if 0 < length ms then Some ms else None),
      in_reply_to_tweet_id =
        (if truthy (replyToTweetId options) then replyToTweetId options else None)\<rparr>"

text \<open>
  \<open>prepareTweetPayload\<close> receives the access token and the credentials in its options.
  It uploads with the credentials object; the token only decides whether it uploads.
\<close>

definition prepareTweetPayload ::
  "env \<Rightarrow> tweet \<Rightarrow> string \<Rightarrow> twitter_credentials \<Rightarrow> history
     \<Rightarrow> (history \<times> twitter_credentials \<times> (js_error + payload)) option"
where
  "prepareTweetPayload env options token twitterCredentials h =
     (if truthy (imageUrl options) \<and> token \<noteq> [] then
        (case uploadMedia env (js_str (imageUrl options)) twitterCredentials 0 h of
           None \<Rightarrow> None
         | Some (h1, c1, Inl e) \<Rightarrow> Some (h1, c1, Inl e)
         | Some (h1, c1, Inr media_id_string) \<Rightarrow>
             if media_id_string = [] then
               Some (h1, c1, Inl (new_Error ''Failed to upload media''))
             else Some (h1, c1, Inr (payload_of (options\<lparr>mediaIds := Some [media_id_string]\<rparr>))))
      else Some (h, twitterCredentials, Inr (payload_of options)))"

datatype error_code = Code string | StatusCode nat

record result_error =
  details :: "string option"
  code :: "error_code option"
  originalError :: "string option"
  error_status :: "nat option"

record publish_result =
  success :: bool
  twitterTweetId :: "string option"
  r_publishedTweetId :: "string option"
  message :: string
  error :: "result_error option"

text \<open>\<open>publishedTweet.data.id\<close>.\<close>

definition published_id :: "api_json option \<Rightarrow> js_error + string option" where
  "published_id publishedTweet =
     (case publishedTweet of
        None \<Rightarrow> Inl (TypeError ''null'' ''data'')
      | Some d \<Rightarrow> (case data_id d of None \<Rightarrow> Inl (TypeError ''undefined'' ''id'') | Some i \<Rightarrow> Inr i))"

text \<open>The outer \<open>try\<close> block of \<open>publishTweetWithRefresh\<close>; \<open>Inl\<close> is what it throws.\<close>

definition try_publish ::
  "env \<Rightarrow> twitter_credentials \<Rightarrow> tweet \<Rightarrow> string \<Rightarrow> history
     \<Rightarrow> (history \<times> twitter_credentials \<times> (js_error + publish_result)) option"
where
  "try_publish env twitterCredentials options token h =
     (case text options of
        None \<Rightarrow> Some (h, twitterCredentials, Inl (TypeError ''undefined'' ''substring''))
      | Some t \<Rightarrow>
          (case prepareTweetPayload env options token twitterCredentials h of
             None \<Rightarrow> None
           | Some (h1, c1, Inl e) \<Rightarrow> Some (h1, c1, Inl e)
           | Some (h1, c1, Inr tweetPayload) \<Rightarrow>
               (case publishTweet env token tweetPayload h1 of
                  (h2, Inl e) \<Rightarrow> Some (h2, c1, Inl e)
                | (h2, Inr publishedTweet) \<Rightarrow>
                    (case published_id publishedTweet of
                       Inl e \<Rightarrow> Some (h2, c1, Inl e)
                     | Inr i \<Rightarrow>
                         Some (h2, c1, Inr \<lparr>success = True, twitterTweetId = i,
                                            r_publishedTweetId = i,
                                            message = ''Tweet published successfully'',
                                            error = None\<rparr>)))))"

text \<open>The inner \<open>try\<close> block: refresh, store the new pair, prepare and post again.\<close>

definition try_refresh_and_publish ::
  "env \<Rightarrow> twitter_credentials \<Rightarrow> tweet \<Rightarrow> history
     \<Rightarrow> (history \<times> twitter_credentials \<times> (js_error + publish_result)) option"
where
  "try_refresh_and_publish env twitterCredentials options h =
     (case refreshTwitterAccessToken env twitterCredentials h of
        (h1, Inl e) \<Rightarrow> Some (h1, twitterCredentials, Inl e)
      | (h1, Inr (newAccessToken, newRefreshToken, expiresAt)) \<Rightarrow>
          if \<not> truthy (userId twitterCredentials) then
            Some (h1, twitterCredentials, Inl (new_Error ''User ID is required for token refresh''))
          else
            (case updateTwitterCredentials env (js_str (userId twitterCredentials))
                    newAccessToken newRefreshToken h1 of
               (h2, Some e) \<Rightarrow> Some (h2, twitterCredentials, Inl e)
             | (h2, None) \<Rightarrow>
                 (case prepareTweetPayload env options newAccessToken twitterCredentials h2 of
                    None \<Rightarrow> None
                  | Some (h3, c3, Inl e) \<Rightarrow> Some (h3, c3, Inl e)
                  | Some (h3, c3, Inr tweetPayload) \<Rightarrow>
                      (case publishTweet env newAccessToken tweetPayload h3 of
                         (h4, Inl e) \<Rightarrow> Some (h4, c3, Inl e)
                       | (h4, Inr publishedTweet) \<Rightarrow>
                           (case published_id publishedTweet of
                              Inl e \<Rightarrow> Some (h4, c3, Inl e)
                            | Inr i \<Rightarrow>
                                Some (h4, c3, Inr \<lparr>success = True, twitterTweetId = i,
                                  r_publishedTweetId = None,
                                  message = ''Tweet published successfully after refreshing credentials'',
                                  error = None\<rparr>))))))"

definition token_expired :: "js_error \<Rightarrow> publish_result" where
  "token_expired refreshError =
     \<lparr>success = False, twitterTweetId = None, r_publishedTweetId = None,
      message = ''Twitter authentication failed'',
      error = Some \<lparr>details = Some
                ''Your Twitter connection has expired. Please reconnect your Twitter account.'',
              code = Some (Code ''token_expired''),
              originalError = Some (err_message refreshError),
              error_status = None\<rparr>\<rparr>"

definition api_error :: "js_error \<Rightarrow> publish_result" where
  "api_error publishError =
     \<lparr>success = False, twitterTweetId = None, r_publishedTweetId = None,
      message = ''Failed to publish tweet'',
      error = Some \<lparr>details = Some (js_or (Some (err_message publishError))
                ''An error occurred while publishing to Twitter''),
              code = Some (Code ''api_error''),
              originalError = None,
              error_status = (case truthy_num (err_status publishError) of
                                Some n \<Rightarrow> Some n
                              | None \<Rightarrow> err_statusCode publishError)\<rparr>\<rparr>"

text \<open>
  \<open>publishTweetWithRefresh\<close>. The access token is read once, before anything is
  uploaded; the refresh token is looked at in the \<open>catch\<close>, on the credentials object as
  the upload left it.
\<close>

definition publishTweetWithRefresh ::
  "env \<Rightarrow> twitter_credentials \<Rightarrow> tweet \<Rightarrow> history
     \<Rightarrow> (history \<times> twitter_credentials \<times> publish_result) option"
where
  "publishTweetWithRefresh env twitterCredentials options h =
     (case try_publish env twitterCredentials options
             (accessToken (oauthCredentials twitterCredentials)) h of
        None \<Rightarrow> None
      | Some (h1, c1, Inr r) \<Rightarrow> Some (h1, c1, r)
      | Some (h1, c1, Inl publishError) \<Rightarrow>
          if isAuthError publishError \<and> truthy (refreshToken (oauthCredentials c1)) then
            (case try_refresh_and_publish env c1 options h1 of
               None \<Rightarrow> None
             | Some (h2, c2, Inr r) \<Rightarrow> Some (h2, c2, r)
             | Some (h2, c2, Inl refreshError) \<Rightarrow> Some (h2, c2, token_expired refreshError))
          else Some (h1, c1, api_error publishError))"

section \<open>publishingService.js: the store and the service entry points\<close>

text \<open>
  The reads of the document store are lookups in a snapshot of it: a document is
  missing, exists without data, or has data. Reads do not fail in this model; the two
  writes above go through the environment and may.
\<close>

datatype 'a snapshot = Missing | NoData | Data 'a

record project =
  project_userId :: "string option"
  workspaceId :: "string option"

record workspace =
  members :: "string list option"
  ownerId :: "string option"

record tweet_group =
  isEnabled :: "bool option"

text \<open>
  A stored tweet is spread over the publish options: a property it has replaces the
  option of that name, also when its value is \<open>null\<close>.
\<close>

datatype 'a field = Absent | Null | Value 'a

record tweet_doc =
  doc_text :: "string field"
  doc_mediaIds :: "string list field"
  doc_replyToTweetId :: "string field"
  doc_imageUrl :: "string field"

definition spread :: "'a field \<Rightarrow> 'a option \<Rightarrow> 'a option" where
  "spread f v = (case f of Absent \<Rightarrow> v | Null \<Rightarrow> None | Value x \<Rightarrow> Some x)"

record db =
  projects :: "string \<Rightarrow> project snapshot"
  workspaces :: "string \<Rightarrow> workspace snapshot"
  twitter_credentials :: "string \<Rightarrow> twitter_credentials option"
  tweets :: "string \<Rightarrow> string \<Rightarrow> tweet_doc option"
  tweet_groups :: "string \<Rightarrow> tweet_group option"

record project_access =
  isAuthorized :: bool
  access_error :: "string option"
  statusCode :: "nat option"

definition denied :: "string \<Rightarrow> nat \<Rightarrow> project_access" where
  "denied reason n = \<lparr>isAuthorized = False, access_error = Some reason, statusCode = Some n\<rparr>"

definition verifyProjectAccess :: "db \<Rightarrow> string \<Rightarrow> string \<Rightarrow> project_access" where
  "verifyProjectAccess d uid pid =
     (case projects d pid of
        Missing \<Rightarrow> denied ''Project not found'' 404
      | NoData \<Rightarrow> denied ''Project data is empty'' 404
      | Data projectData \<Rightarrow>
          if project_userId projectData = Some uid then
            \<lparr>isAuthorized = True, access_error = None, statusCode = None\<rparr>
          else if \<not> truthy (workspaceId projectData) then
            denied ''You do not have permission to access this project'' 403
          else
            (case workspaces d (js_str (workspaceId projectData)) of
               Missing \<Rightarrow> denied ''Workspace not found'' 404
             | NoData \<Rightarrow> denied ''Workspace data is empty'' 404
             | Data workspaceData \<Rightarrow>
                 if (case members workspaceData of None \<Rightarrow> False | Some ms \<Rightarrow> uid \<in> set ms)
                    \<or> ownerId workspaceData = Some uid
                 then \<lparr>isAuthorized = True, access_error = None, statusCode = None\<rparr>
                 else denied ''You do not have permission to access this project'' 403))"

definition getTwitterCredentials :: "db \<Rightarrow> string \<Rightarrow> twitter_credentials option" where
  "getTwitterCredentials d uid =
     (case twitter_credentials d uid of
        None \<Rightarrow> None
      | Some twitterData \<Rightarrow>
          if accessToken (oauthCredentials twitterData) = [] then None else Some twitterData)"

definition getTweetGroup :: "db \<Rightarrow> string \<Rightarrow> tweet_group option" where
  "getTweetGroup d gid = tweet_groups d gid"

text \<open>The group check of \<open>publishTweet\<close>: a group id, a group found, \<open>isEnabled === false\<close>.\<close>

definition group_disabled :: "db \<Rightarrow> string option \<Rightarrow> bool" where
  "group_disabled d gid =
     (truthy gid \<and>
      (case getTweetGroup d (js_str gid) of None \<Rightarrow> False | Some g \<Rightarrow> isEnabled g = Some False))"

definition failure :: "string \<Rightarrow> result_error \<Rightarrow> publish_result" where
  "failure m e =
     \<lparr>success = False, twitterTweetId = None, r_publishedTweetId = None, message = m,
      error = Some e\<rparr>"

definition only_details :: "string option \<Rightarrow> result_error" where
  "only_details v = \<lparr>details = v, code = None, originalError = None, error_status = None\<rparr>"

text \<open>
  The options that \<open>publishTweet\<close> passes on: four of its own, then the stored tweet
  spread over them.
\<close>

definition stored_options :: "tweet \<Rightarrow> tweet_doc \<Rightarrow> tweet" where
  "stored_options options tweetDoc =
     \<lparr>tweetId = None, projectId = None,
      text = spread (doc_text tweetDoc) (text options),
      mediaIds = spread (doc_mediaIds tweetDoc) (mediaIds options),
      replyToTweetId = spread (doc_replyToTweetId tweetDoc) (replyToTweetId options),
      imageUrl = spread (doc_imageUrl tweetDoc) (imageUrl options),
      groupId = None, threadPosition = None, status = None, publishedTweetId = None\<rparr>"

text \<open>
  \<open>publishTweet\<close> of the service. Its \<open>catch\<close> turns the rejection of the status write
  into the result \<open>Internal server error\<close>.
\<close>

definition publishTweet_service ::
  "env \<Rightarrow> db \<Rightarrow> string \<Rightarrow> tweet \<Rightarrow> history \<Rightarrow> (history \<times> publish_result) option"
where
  "publishTweet_service env d uid options h =
     (if \<not> truthy (tweetId options) \<or> \<not> truthy (projectId options) \<or> \<not> truthy (text options) then
        Some (h, failure ''Missing required fields''
                   (only_details (Some ''tweetId, projectId, and text are required'')))
      else
        let projectAccess = verifyProjectAccess d uid (js_str (projectId options)) in
        if \<not> isAuthorized projectAccess then
          Some (h, failure (js_or (access_error projectAccess) ''Unauthorized'')
                     ((only_details (access_error projectAccess))
                        \<lparr>code := map_option StatusCode (statusCode projectAccess)\<rparr>))
        else if group_disabled d (groupId options) then
          Some (h, failure ''Group is disabled. Tweet will not be published.''
                     (only_details (Some ''Group is disabled.'')))
        else
          (case getTwitterCredentials d uid of
             None \<Rightarrow>
               Some (h, failure ''Twitter credentials not found''
                          ((only_details (Some ''Please connect your Twitter account in settings''))
                             \<lparr>code := Some (Code ''credentials_not_found'')\<rparr>))
           | Some twitterCredentials \<Rightarrow>
               (case tweets d (js_str (projectId options)) (js_str (tweetId options)) of
                  None \<Rightarrow>
                    Some (h, failure ''Tweet not found''
                               (only_details (Some ''The specified tweet does not exist'')))
                | Some tweetDoc \<Rightarrow>
                    (case publishTweetWithRefresh env (twitterCredentials\<lparr>userId := Some uid\<rparr>)
                            (stored_options options tweetDoc) h of
                       None \<Rightarrow> None
                     | Some (h1, c1, publishResult) \<Rightarrow>
                         if success publishResult \<and> truthy (twitterTweetId publishResult) then
                           (case updateTweetStatus env (js_str (projectId options)) (tweetId options)
                                   (js_str (twitterTweetId publishResult)) (text options) h1 of
                              (h2, Some e) \<Rightarrow>
                                Some (h2, failure ''Internal server error''
                                            (only_details (Some (err_message e))))
                            | (h2, None) \<Rightarrow> Some (h2, publishResult))
                         else Some (h1, publishResult)))))"

section \<open>publishingService.js: publishing a thread\<close>

text \<open>
  Modelled from the spec: \<open>constants.js\<close>, which defines \<open>TweetStatus\<close>, is not among the
  sources. The spec gives the status values as draft, scheduled, published and failed, and
  \<open>updateTweetStatus\<close> stores the status \<open>published\<close>.
\<close>

definition TweetStatus_PUBLISHED :: string where
  "TweetStatus_PUBLISHED = ''published''"

record thread_entry =
  e_tweetId :: "string option"
  e_publishedTweetId :: "string option"
  e_success :: bool
  e_message :: string

record thread_result =
  t_success :: bool
  t_message :: string
  results :: "thread_entry list"
  t_statusCode :: "nat option"
  t_details :: "string option"

text \<open>The variables of the loop over the sorted tweets.\<close>

record loop_state =
  l_history :: history
  l_credentials :: twitter_credentials
  previousTweetId :: "string option"
  l_results :: "thread_entry list"

definition publishOptions :: "string \<Rightarrow> string option \<Rightarrow> tweet \<Rightarrow> tweet" where
  "publishOptions pid previous t =
     t\<lparr>projectId := Some pid,
       replyToTweetId := (if truthy previous then previous else replyToTweetId t)\<rparr>"

text \<open>
  One iteration of the loop. The flag is \<open>False\<close> when the iteration ends in \<open>break\<close>.
\<close>

definition thread_step ::
  "env \<Rightarrow> string \<Rightarrow> tweet \<Rightarrow> loop_state \<Rightarrow> (loop_state \<times> bool) option"
where
  "thread_step env pid t st =
     (if status t = Some TweetStatus_PUBLISHED then
        Some (st\<lparr>previousTweetId := publishedTweetId t\<rparr>, True)
      else
        (case publishTweetWithRefresh env (l_credentials st)
                (publishOptions pid (previousTweetId st) t) (l_history st) of
           None \<Rightarrow> None
         | Some (h1, c1, result) \<Rightarrow>
             let results1 = l_results st @
                   [\<lparr>e_tweetId = tweetId t, e_publishedTweetId = twitterTweetId result,
                     e_success = success result, e_message = message result\<rparr>]
             in
             if success result \<and> truthy (twitterTweetId result) then
               (case updateTweetStatus env pid (tweetId t) (js_str (twitterTweetId result))
                       (text t) h1 of
                  (h2, Some e) \<Rightarrow>
                    Some (\<lparr>l_history = h2, l_credentials = c1,
                            previousTweetId = twitterTweetId result,
                            l_results = results1 @
                              [\<lparr>e_tweetId = tweetId t, e_publishedTweetId = None,
                                e_success = False, e_message = ''Tweet publishing failed''\<rparr>]\<rparr>,
                          False)
                | (h2, None) \<Rightarrow>
                    Some (\<lparr>l_history = h2, l_credentials = c1,
                            previousTweetId = twitterTweetId result,
                            l_results = results1\<rparr>, True))
             else
               Some (\<lparr>l_history = h1, l_credentials = c1,
                       previousTweetId = previousTweetId st,
                       l_results = results1\<rparr>, False)))"

text \<open>
  The \<open>for\<close> loop. The flag of the result tells whether the loop ran to the end of the
  list (\<open>True\<close>) or left by \<open>break\<close>.
\<close>

fun thread_loop ::
  "env \<Rightarrow> string \<Rightarrow> tweet list \<Rightarrow> loop_state \<Rightarrow> (loop_state \<times> bool) option"
where
  "thread_loop env pid [] st = Some (st, True)"
| "thread_loop env pid (t # ts) st =
     (case thread_step env pid t st of
        None \<Rightarrow> None
      | Some (st1, go) \<Rightarrow> if go then thread_loop env pid ts st1 else Some (st1, False))"

text \<open>\<open>[...threadTweets].sort\<close> by \<open>threadPosition || 0\<close>; the sort is stable.\<close>

definition sortedTweets :: "tweet list \<Rightarrow> tweet list" where
  "sortedTweets threadTweets =
     sort_key (\<lambda>t. case threadPosition t of None \<Rightarrow> 0 | Some p \<Rightarrow> p) threadTweets"

definition publishedCount :: "thread_entry list \<Rightarrow> nat" where
  "publishedCount rs = length (filter e_success rs)"

text \<open>The result that \<open>publishThreadTweets\<close> builds from the entries after the loop.\<close>

definition thread_summary :: "thread_entry list \<Rightarrow> nat \<Rightarrow> thread_result" where
  "thread_summary rs totalCount =
     (let allSucceeded = list_all e_success rs;
          stoppedEarly = (publishedCount rs < totalCount \<and> 0 < publishedCount rs)
      in \<lparr>t_success = allSucceeded,
          t_message =
            (if allSucceeded then
               ''Thread published successfully ('' @ toString (publishedCount rs) @ '' tweets)''
             else if stoppedEarly then
               ''Thread publishing stopped after '' @ toString (publishedCount rs) @ ''/''
                 @ toString totalCount @ '' tweets to maintain thread integrity''
             else ''Failed to publish thread''),
          results = rs, t_statusCode = None, t_details = None\<rparr>)"

definition thread_failure :: "string \<Rightarrow> nat \<Rightarrow> string option \<Rightarrow> thread_result" where
  "thread_failure m n v =
     \<lparr>t_success = False, t_message = m, results = [], t_statusCode = Some n, t_details = v\<rparr>"

definition publishThreadTweets ::
  "env \<Rightarrow> db \<Rightarrow> string \<Rightarrow> string \<Rightarrow> tweet list \<Rightarrow> history \<Rightarrow> (history \<times> thread_result) option"
where
  "publishThreadTweets env d uid pid threadTweets h =
     (let projectAccess = verifyProjectAccess d uid pid in
      if \<not> isAuthorized projectAccess then
        Some (h, thread_failure
                   (js_or (access_error projectAccess) ''Not authorized to access this project'')
                   (case truthy_num (statusCode projectAccess) of Some n \<Rightarrow> n | None \<Rightarrow> 403)
                   (access_error projectAccess))
      else
        (case getTwitterCredentials d uid of
           None \<Rightarrow>
             Some (h, thread_failure ''Twitter credentials not found'' 404
                        (Some ''No Twitter credentials available for this user''))
         | Some twitterCredentials \<Rightarrow>
             if length threadTweets = 0 then
               Some (h, thread_failure ''No tweets provided for the thread'' 400
                          (Some ''Thread must contain at least one tweet''))
             else
               (case thread_loop env pid (sortedTweets threadTweets)
                       \<lparr>l_history = h, l_credentials = twitterCredentials,
                        previousTweetId = None, l_results = []\<rparr> of
                  None \<Rightarrow> None
                | Some (st, completed) \<Rightarrow>
                    Some (l_history st,
                          thread_summary (l_results st) (length (sortedTweets threadTweets))))))"

section \<open>Observations on histories\<close>

fun is_OAuthToken :: "request \<Rightarrow> bool" where
  "is_OAuthToken (OAuthToken c s r) = True"
| "is_OAuthToken rq = False"

fun is_HeadImage :: "request \<Rightarrow> bool" where
  "is_HeadImage (HeadImage u) = True"
| "is_HeadImage rq = False"

fun is_PostTweets :: "request \<Rightarrow> bool" where
  "is_PostTweets (PostTweets t p) = True"
| "is_PostTweets rq = False"

fun is_MediaStatus :: "request \<Rightarrow> bool" where
  "is_MediaStatus (MediaStatus t m) = True"
| "is_MediaStatus rq = False"

text \<open>The requests of an upload after its first one, the probe of the image headers.\<close>

fun media_request :: "request \<Rightarrow> bool" where
  "media_request (MediaInit t n c) = True"
| "media_request (GetImage u) = True"
| "media_request (MediaAppend t m) = True"
| "media_request (MediaFinalize t m) = True"
| "media_request (MediaStatus t m) = True"
| "media_request rq = False"

text \<open>
  A refresh attempt is a request to the token endpoint, a post call a request to the
  tweets endpoint. Every run of \<open>uploadMediaToTwitter\<close> starts with one probe of the
  image, so the probes count the upload attempts.
\<close>

definition refresh_attempts :: "history \<Rightarrow> nat" where
  "refresh_attempts h = length (filter is_OAuthToken h)"

definition upload_attempts :: "history \<Rightarrow> nat" where
  "upload_attempts h = length (filter is_HeadImage h)"

definition post_calls :: "history \<Rightarrow> nat" where
  "post_calls h = length (filter is_PostTweets h)"

definition status_polls :: "history \<Rightarrow> nat" where
  "status_polls h = length (filter is_MediaStatus h)"

text \<open>The entry that the thread loop pushes for a tweet and its publish result.\<close>

definition entry_of :: "tweet \<Rightarrow> publish_result \<Rightarrow> thread_entry" where
  "entry_of t result =
     \<lparr>e_tweetId = tweetId t, e_publishedTweetId = twitterTweetId result,
      e_success = success result, e_message = message result\<rparr>"

definition unpublished :: "tweet \<Rightarrow> bool" where
  "unpublished t = (status t \<noteq> Some TweetStatus_PUBLISHED)"

section \<open>Concrete providers, stores and inputs\<close>

definition http :: "nat \<Rightarrow> string \<Rightarrow> response" where
  "http n t = \<lparr>http_status = n, statusText = t, content_type = None, content_length = None,
               body_text = [], json = JsonNull\<rparr>"

definition empty_object :: api_json where
  "empty_object = \<lparr>data_id = None, errors0_message = None, detail = None, processing_info = None,
     access_token = None, refresh_token = None, expires_in = None, error_description = None\<rparr>"

definition json_ok :: "api_json \<Rightarrow> outcome" where
  "json_ok d = Resolves ((http 200 ''OK'')\<lparr>json := JsonObject d\<rparr>)"

definition json_error :: "nat \<Rightarrow> string \<Rightarrow> api_json \<Rightarrow> outcome" where
  "json_error n t d = Resolves ((http n t)\<lparr>json := JsonObject d\<rparr>)"

definition old_credentials :: twitter_credentials where
  "old_credentials = \<lparr>oauthCredentials = \<lparr>accessToken = ''old'', refreshToken = Some ''r0''\<rparr>,
     clientId = ''id'', clientSecret = ''secret'', userId = Some ''u''\<rparr>"

definition plain_tweet :: tweet where
  "plain_tweet = \<lparr>tweetId = Some ''t'', projectId = Some ''p'', text = Some ''hello'',
     mediaIds = None, replyToTweetId = None, imageUrl = None, groupId = None,
     threadPosition = None, status = None, publishedTweetId = None\<rparr>"

definition image_tweet :: tweet where
  "image_tweet = plain_tweet\<lparr>imageUrl := Some ''img''\<rparr>"

text \<open>
  A provider that rotates tokens: the token \<open>old\<close> is rejected by the tweets endpoint,
  and by the media endpoint once a refresh has been granted; the refresh token \<open>r0\<close> is
  good for one refresh.
\<close>

definition rotating_provider :: env where
  "rotating_provider h rq =
     (case rq of
        HeadImage u \<Rightarrow> Resolves ((http 200 ''OK'')\<lparr>content_length := Some ''10''\<rparr>)
      | MediaInit tok n ty \<Rightarrow>
          if tok = ''old'' \<and> 0 < refresh_attempts h then
            Resolves ((http 401 ''Unauthorized'')\<lparr>body_text := ''401 Unauthorized''\<rparr>)
          else json_ok (empty_object\<lparr>data_id := Some (Some ''m1'')\<rparr>)
      | MediaFinalize tok m \<Rightarrow> json_ok empty_object
      | PostTweets tok p \<Rightarrow>
          if tok = ''old'' then
            json_error 401 ''Unauthorized'' (empty_object\<lparr>detail := Some ''Unauthorized''\<rparr>)
          else json_ok (empty_object\<lparr>data_id := Some (Some ''t1'')\<rparr>)
      | OAuthToken c s rt \<Rightarrow>
          if rt = Some ''r0'' \<and> refresh_attempts h = 0 then
            json_ok (empty_object\<lparr>access_token := Some ''new'', refresh_token := Some ''r1''\<rparr>)
          else json_error 400 ''Bad Request''
                 (empty_object\<lparr>error_description := Some ''invalid refresh token''\<rparr>)
      | _ \<Rightarrow> Resolves (http 200 ''OK''))"

text \<open>The same provider with a media endpoint that goes on accepting the token \<open>old\<close>.\<close>

definition lenient_media_provider :: env where
  "lenient_media_provider h rq =
     (case rq of
        MediaInit tok n ty \<Rightarrow> json_ok (empty_object\<lparr>data_id := Some (Some ''m1'')\<rparr>)
      | _ \<Rightarrow> rotating_provider h rq)"

text \<open>A provider whose media endpoint answers 401 whatever the token, and that grants every refresh.\<close>

definition unauthorized_upload_provider :: env where
  "unauthorized_upload_provider h rq =
     (case rq of
        HeadImage u \<Rightarrow> Resolves ((http 200 ''OK'')\<lparr>content_length := Some ''10''\<rparr>)
      | MediaInit tok n ty \<Rightarrow>
          Resolves ((http 401 ''Unauthorized'')\<lparr>body_text := ''401 Unauthorized''\<rparr>)
      | OAuthToken c s rt \<Rightarrow>
          json_ok (empty_object\<lparr>access_token := Some ''new'', refresh_token := Some ''r1''\<rparr>)
      | _ \<Rightarrow> Resolves (http 200 ''OK''))"

text \<open>
  A provider that answers every post with the given status and detail, and that either
  grants every refresh or cannot be reached for one.
\<close>

definition refusing_provider :: "nat \<Rightarrow> string \<Rightarrow> bool \<Rightarrow> env" where
  "refusing_provider n d grants h rq =
     (case rq of
        PostTweets tok p \<Rightarrow> json_error n ''Error'' (empty_object\<lparr>detail := Some d\<rparr>)
      | OAuthToken c s rt \<Rightarrow>
          if grants then
            json_ok (empty_object\<lparr>access_token := Some ''new'', refresh_token := Some ''r1''\<rparr>)
          else Rejects ''offline''
      | _ \<Rightarrow> Resolves (http 200 ''OK''))"

text \<open>
  Media processing: the finalize response reports the state \<open>pending\<close>; the status
  endpoint reports \<open>failed\<close> for ever, or \<open>in_progress\<close> twice and then \<open>succeeded\<close>.
\<close>

definition processing :: "string \<Rightarrow> outcome" where
  "processing s = json_ok (empty_object\<lparr>processing_info :=
     Some \<lparr>state = s, check_after_secs = Some 1\<rparr>\<rparr>)"

definition failed_processing_provider :: env where
  "failed_processing_provider h rq =
     (case rq of
        HeadImage u \<Rightarrow> Resolves ((http 200 ''OK'')\<lparr>content_length := Some ''10''\<rparr>)
      | MediaInit tok n ty \<Rightarrow> json_ok (empty_object\<lparr>data_id := Some (Some ''m1'')\<rparr>)
      | MediaFinalize tok m \<Rightarrow> processing ''pending''
      | MediaStatus tok m \<Rightarrow> processing ''failed''
      | _ \<Rightarrow> Resolves (http 200 ''OK''))"

definition slow_processing_provider :: env where
  "slow_processing_provider h rq =
     (case rq of
        HeadImage u \<Rightarrow> Resolves ((http 200 ''OK'')\<lparr>content_length := Some ''10''\<rparr>)
      | MediaInit tok n ty \<Rightarrow> json_ok (empty_object\<lparr>data_id := Some (Some ''m1'')\<rparr>)
      | MediaFinalize tok m \<Rightarrow> processing ''pending''
      | MediaStatus tok m \<Rightarrow>
          if status_polls h < 2 then processing ''in_progress'' else processing ''succeeded''
      | _ \<Rightarrow> Resolves (http 200 ''OK''))"

text \<open>
  A provider that accepts the first post and answers 500 to every later one, and one
  that accepts every post while the store rejects the status write.
\<close>

definition one_post_provider :: env where
  "one_post_provider h rq =
     (case rq of
        PostTweets tok p \<Rightarrow>
          if post_calls h = 0 then json_ok (empty_object\<lparr>data_id := Some (Some ''x1'')\<rparr>)
          else json_error 500 ''Error'' (empty_object\<lparr>detail := Some ''Server error''\<rparr>)
      | _ \<Rightarrow> Resolves (http 200 ''OK''))"

definition store_down_provider :: env where
  "store_down_provider h rq =
     (case rq of
        PostTweets tok p \<Rightarrow> json_ok (empty_object\<lparr>data_id := Some (Some ''x1'')\<rparr>)
      | UpdateTweetStatus p t i x \<Rightarrow> Rejects ''store unavailable''
      | _ \<Rightarrow> Resolves (http 200 ''OK''))"

text \<open>
  A store with the project \<open>p\<close> of user \<open>u\<close>, the user's credentials, the stored tweet
  \<open>t\<close> and the disabled group \<open>g\<close>.
\<close>

definition sample_db :: db where
  "sample_db =
     \<lparr>projects = (\<lambda>k. if k = ''p'' then Data \<lparr>project_userId = Some ''u'', workspaceId = None\<rparr>
                       else Missing),
      workspaces = (\<lambda>k. Missing),
      twitter_credentials = (\<lambda>k. if k = ''u'' then Some (old_credentials\<lparr>userId := None\<rparr>) else None),
      tweets = (\<lambda>k1 k2. if k1 = ''p'' \<and> k2 = ''t'' then
                  Some \<lparr>doc_text = Absent, doc_mediaIds = Absent, doc_replyToTweetId = Absent,
                        doc_imageUrl = Absent\<rparr>
                else None),
      tweet_groups = (\<lambda>k. if k = ''g'' then Some \<lparr>isEnabled = Some False\<rparr> else None)\<rparr>"

definition published_tweet :: tweet where
  "published_tweet = plain_tweet\<lparr>tweetId := Some ''t0'', status := Some TweetStatus_PUBLISHED,
     publishedTweetId := Some ''x0'', threadPosition := Some 0\<rparr>"

definition second_tweet :: tweet where
  "second_tweet = plain_tweet\<lparr>tweetId := Some ''t1'', threadPosition := Some 1\<rparr>"

definition third_tweet :: tweet where
  "third_tweet = plain_tweet\<lparr>tweetId := Some ''t2'', threadPosition := Some 2\<rparr>"

text \<open>The history of \<open>uploadMedia\<close> against the provider whose media endpoint always answers 401.\<close>

definition three_attempts_history :: history where
  "three_attempts_history =
     [HeadImage ''img'', MediaInit ''old'' ''10'' ''image/jpeg'',
      OAuthToken ''id'' ''secret'' (Some ''r0''), UpdateCredentials ''u'' ''new'' ''r1'',
      HeadImage ''img'', MediaInit ''new'' ''10'' ''image/jpeg'',
      OAuthToken ''id'' ''secret'' (Some ''r1''), UpdateCredentials ''u'' ''new'' ''r1'',
      HeadImage ''img'', MediaInit ''new'' ''10'' ''image/jpeg'']"

definition new_credentials :: twitter_credentials where
  "new_credentials =
     old_credentials\<lparr>oauthCredentials := \<lparr>accessToken = ''new'', refreshToken = Some ''r1''\<rparr>\<rparr>"

text \<open>The states in which the provider reports that processing is still under way.\<close>

definition still_processing :: "processing_info \<Rightarrow> bool" where
  "still_processing p = (state p = ''pending'' \<or> state p = ''in_progress'')"

text \<open>A request is answered with a response that is ok.\<close>

definition answers :: "env \<Rightarrow> history \<Rightarrow> request \<Rightarrow> response \<Rightarrow> bool" where
  "answers env h rq r = (env h rq = Resolves r \<and> ok r)"

text \<open>The requests of an upload up to the finalize request.\<close>

definition upload_requests :: "string \<Rightarrow> string \<Rightarrow> string \<Rightarrow> string \<Rightarrow> string \<Rightarrow> history" where
  "upload_requests url tok n ty m =
     [HeadImage url, MediaInit tok n ty, GetImage url, MediaAppend tok m, MediaFinalize tok m]"

text \<open>
  The history of publishing the tweet with an image against the rotating provider, and
  against the provider whose media endpoint goes on accepting the token \<open>old\<close>.
\<close>

definition image_payload :: payload where
  "image_payload = \<lparr>p_text = Some ''hello'', media_ids = Some [''m1''], in_reply_to_tweet_id = None\<rparr>"


definition lenient_history :: history where
  "lenient_history =
     [HeadImage ''img'', MediaInit ''old'' ''10'' ''image/jpeg'', GetImage ''img'',
      MediaAppend ''old'' ''m1'', MediaFinalize ''old'' ''m1'',
      PostTweets ''old'' image_payload,
      OAuthToken ''id'' ''secret'' (Some ''r0''), UpdateCredentials ''u'' ''new'' ''r1'',
      HeadImage ''img'', MediaInit ''old'' ''10'' ''image/jpeg'', GetImage ''img'',
      MediaAppend ''old'' ''m1'', MediaFinalize ''old'' ''m1'',
      PostTweets ''new'' image_payload]"

definition unauthorized :: js_error where
  "unauthorized = \<lparr>err_message = ''Unauthorized'', err_code = Some 401, err_status = None,
     err_statusCode = None\<rparr>"

text \<open>A provider that answers 401 to the token \<open>old\<close>, 403 to any other, and grants every refresh.\<close>

definition forbidding_provider :: env where
  "forbidding_provider h rq =
     (case rq of
        PostTweets tok p \<Rightarrow>
          if tok = ''old'' then
            json_error 401 ''Unauthorized'' (empty_object\<lparr>detail := Some ''Unauthorized''\<rparr>)
          else json_error 403 ''Forbidden'' (empty_object\<lparr>detail := Some ''Forbidden''\<rparr>)
      | OAuthToken c s rt \<Rightarrow>
          json_ok (empty_object\<lparr>access_token := Some ''new'', refresh_token := Some ''r1''\<rparr>)
      | _ \<Rightarrow> Resolves (http 200 ''OK''))"

definition forbidden :: js_error where
  "forbidden = \<lparr>err_message = ''Forbidden'', err_code = Some 403, err_status = None,
     err_statusCode = None\<rparr>"

text \<open>The stored tweet \<open>t\<close> of the sample store, the user's credentials as \<open>publishTweet\<close>
  completes them, and a tweet of the disabled group.\<close>

definition bare_doc :: tweet_doc where
  "bare_doc = \<lparr>doc_text = Absent, doc_mediaIds = Absent, doc_replyToTweetId = Absent,
     doc_imageUrl = Absent\<rparr>"

definition grouped_tweet :: tweet where
  "grouped_tweet = plain_tweet\<lparr>groupId := Some ''g''\<rparr>"

definition published_result :: publish_result where
  "published_result =
     \<lparr>success = True, twitterTweetId = Some ''x1'', r_publishedTweetId = Some ''x1'',
      message = ''Tweet published successfully'', error = None\<rparr>"

text \<open>The post calls among some requests all carry the reply target of the options.\<close>

definition posts_reply_to :: "tweet \<Rightarrow> history \<Rightarrow> bool" where
  "posts_reply_to options ext =
     (\<forall>rq \<in> set ext. case rq of
        PostTweets tok p \<Rightarrow> in_reply_to_tweet_id p = in_reply_to_tweet_id (payload_of options)
      | _ \<Rightarrow> True)"


text \<open>The state in which \<open>publishThreadTweets\<close> enters its loop.\<close>

definition initial_state :: "history \<Rightarrow> twitter_credentials \<Rightarrow> loop_state" where
  "initial_state h c =
     \<lparr>l_history = h, l_credentials = c, previousTweetId = None, l_results = []\<rparr>"

text \<open>The credentials that the sample store holds for the user \<open>u\<close>.\<close>

definition stored_credentials :: twitter_credentials where
  "stored_credentials = old_credentials\<lparr>userId := None\<rparr>"

definition reply_payload :: "string \<Rightarrow> payload" where
  "reply_payload i = \<lparr>p_text = Some ''hello'', media_ids = None, in_reply_to_tweet_id = Some i\<rparr>"

definition failed_result :: publish_result where
  "failed_result =
     api_error \<lparr>err_message = ''Server error'', err_code = Some 500, err_status = None,
                err_statusCode = None\<rparr>"

section \<open>Histories only grow\<close>

lemma poll_history:
  assumes "checkMediaProcessingStatus env m tok info h = Some y"
  shows "\<exists>n. fst y = h @ replicate n (MediaStatus tok m)"
proof (rule checkMediaProcessingStatus.raw_induct
    [where P = "\<lambda>env m tok info h y. \<exists>n. fst y = h @ replicate n (MediaStatus tok m)",
     OF _ assms], goal_cases)
  case (1 f env m tok info h y)
  show ?case
  proof (cases "state info = ''succeeded''")
    case True
    with 1(2) have "fst y = h" by auto
    then show ?thesis by (intro exI[of _ 0]) simp
  next
    case False
    show ?thesis
    proof (cases "\<exists>resp d p. env h (MediaStatus tok m) = Resolves resp \<and> ok resp
                     \<and> json resp = JsonObject d \<and> processing_info d = Some p")
      case True
      then obtain resp d p where "env h (MediaStatus tok m) = Resolves resp" "ok resp"
          "json resp = JsonObject d" "processing_info d = Some p"
        by blast
      with False 1(2) have "f env m tok p (h @ [MediaStatus tok m]) = Some y"
        by (simp add: call_def)
      from 1(1)[OF this] obtain n
        where "fst y = (h @ [MediaStatus tok m]) @ replicate n (MediaStatus tok m)"
        by blast
      then have "fst y = h @ replicate (Suc n) (MediaStatus tok m)"
        by (simp add: replicate_append_same)
      then show ?thesis by blast
    next
      case no_more: False
      with False 1(2) have "fst y = h @ [MediaStatus tok m]"
        by (auto simp: call_def split: outcome.splits if_splits json_body.splits option.splits)
      then show ?thesis by (intro exI[of _ 1]) simp
    qed
  qed
qed

lemma media_request_other:
  "media_request rq \<Longrightarrow> \<not> is_HeadImage rq \<and> \<not> is_OAuthToken rq \<and> \<not> is_PostTweets rq"
  by (cases rq) auto

lemma media_requests_filter:
  assumes "list_all media_request ext"
  shows "filter is_HeadImage ext = [] \<and> filter is_OAuthToken ext = []
       \<and> filter is_PostTweets ext = []"
  using assms by (induction ext) (auto dest: media_request_other)

lemma finalize_phase_history:
  assumes "finalize_phase env m tok h = Some (h', r)"
  shows "\<exists>ext. h' = h @ ext \<and> list_all media_request ext"
proof (cases "\<exists>resp d p. env h (MediaFinalize tok m) = Resolves resp \<and> ok resp
                 \<and> json resp = JsonObject d \<and> processing_info d = Some p")
  case True
  then obtain resp d p where *: "env h (MediaFinalize tok m) = Resolves resp" "ok resp"
      "json resp = JsonObject d" "processing_info d = Some p"
    by blast
  with assms obtain y
    where y: "checkMediaProcessingStatus env m tok p (h @ [MediaFinalize tok m]) = Some y"
      and "fst y = h'"
    by (auto simp: finalize_phase_def call_def split: option.splits sum.splits)
  from poll_history[OF y] \<open>fst y = h'\<close> obtain n
    where "h' = h @ (MediaFinalize tok m # replicate n (MediaStatus tok m))"
    by auto
  moreover have "list_all media_request (MediaFinalize tok m # replicate n (MediaStatus tok m))"
    by (simp add: list_all_iff)
  ultimately show ?thesis by blast
next
  case False
  with assms have "h' = h @ [MediaFinalize tok m]"
    by (auto simp: finalize_phase_def call_def
             split: outcome.splits if_splits json_body.splits option.splits)
  then show ?thesis by (intro exI[of _ "[MediaFinalize tok m]"]) simp
qed

lemma append_phase_history:
  assumes "append_phase env url m tok h = Some (h', r)"
  shows "\<exists>ext. h' = h @ ext \<and> list_all media_request ext"
proof (cases "\<exists>r1 r2. env h (GetImage url) = Resolves r1 \<and> ok r1
          \<and> env (h @ [GetImage url]) (MediaAppend tok m) = Resolves r2 \<and> ok r2")
  case True
  with assms have "finalize_phase env m tok (h @ [GetImage url, MediaAppend tok m]) = Some (h', r)"
    by (auto simp: append_phase_def call_def)
  from finalize_phase_history[OF this] obtain ext
    where "h' = h @ (GetImage url # MediaAppend tok m # ext)" "list_all media_request ext"
    by auto
  then show ?thesis by (intro exI[of _ "GetImage url # MediaAppend tok m # ext"]) simp
next
  case False
  with assms have "h' = h @ [GetImage url] \<or> h' = h @ [GetImage url, MediaAppend tok m]"
    by (auto simp: append_phase_def call_def split: outcome.splits if_splits)
  then show ?thesis
    by (elim disjE) (rule exI[of _ "[GetImage url]"], simp,
                     rule exI[of _ "[GetImage url, MediaAppend tok m]"], simp)
qed

lemma init_phase_history:
  assumes "init_phase env url tok n ty h = Some (h', r)"
  shows "\<exists>ext. h' = h @ ext \<and> list_all media_request ext"
proof (cases "\<exists>r1 d m. env h (MediaInit tok n ty) = Resolves r1 \<and> ok r1
          \<and> json r1 = JsonObject d \<and> data_id d = Some (Some m) \<and> m \<noteq> []")
  case True
  then obtain m where "append_phase env url m tok (h @ [MediaInit tok n ty]) = Some (h', r)"
    using assms by (auto simp: init_phase_def call_def)
  from append_phase_history[OF this] obtain ext
    where "h' = h @ (MediaInit tok n ty # ext)" "list_all media_request ext"
    by auto
  then show ?thesis by (intro exI[of _ "MediaInit tok n ty # ext"]) simp
next
  case False
  with assms have "h' = h @ [MediaInit tok n ty]"
    by (auto simp: init_phase_def call_def
             split: outcome.splits if_splits json_body.splits option.splits)
  then show ?thesis by (intro exI[of _ "[MediaInit tok n ty]"]) simp
qed

lemma uploadMediaToTwitter_history:
  assumes "uploadMediaToTwitter env url tok h = Some (h', r)"
  shows "\<exists>ext. h' = h @ HeadImage url # ext \<and> list_all media_request ext"
proof (cases "\<exists>r1 n. env h (HeadImage url) = Resolves r1 \<and> ok r1
          \<and> content_length r1 = Some n \<and> n \<noteq> []")
  case True
  then obtain n ty where "init_phase env url tok n ty (h @ [HeadImage url]) = Some (h', r)"
    using assms by (auto simp: uploadMediaToTwitter_def call_def)
  from init_phase_history[OF this] obtain ext
    where "h' = h @ (HeadImage url # ext)" "list_all media_request ext"
    by auto
  then show ?thesis by blast
next
  case False
  with assms have "h' = h @ [HeadImage url]"
    by (auto simp: uploadMediaToTwitter_def call_def
             split: outcome.splits if_splits option.splits)
  then show ?thesis by simp
qed

lemma refreshOAuthToken_history:
  "refreshOAuthToken env c h = (h', r) \<Longrightarrow>
     h' = h @ [OAuthToken (clientId c) (clientSecret c) (refreshToken (oauthCredentials c))]"
  by (auto simp: refreshOAuthToken_def call_def split: outcome.splits json_body.splits if_splits)

lemma refreshTwitterAccessToken_history:
  "refreshTwitterAccessToken env c h = (h', r) \<Longrightarrow>
     h' = h @ [OAuthToken (clientId c) (clientSecret c) (refreshToken (oauthCredentials c))]"
  by (auto simp: refreshTwitterAccessToken_def dest!: refreshOAuthToken_history
           split: prod.splits sum.splits option.splits if_splits)

lemma updateTwitterCredentials_history:
  "updateTwitterCredentials env u a r h = (h', x) \<Longrightarrow> h' = h @ [UpdateCredentials u a r]"
  by (auto simp: updateTwitterCredentials_def call_def split: outcome.splits)

lemma updateTweetStatus_history:
  "updateTweetStatus env p t i x h = (h', y) \<Longrightarrow> h' = h @ [UpdateTweetStatus p t i x]"
  by (auto simp: updateTweetStatus_def call_def split: outcome.splits)

lemma publishTweet_history:
  "publishTweet env tok p h = (h', r) \<Longrightarrow> h' = h @ [PostTweets tok p]"
  by (auto simp: publishTweet_def call_def split: outcome.splits json_body.splits if_splits)

lemma uploadMediaToTwitter_counts:
  assumes "uploadMediaToTwitter env url tok h = Some (h', r)"
  shows "upload_attempts h' = upload_attempts h + 1 \<and> refresh_attempts h' = refresh_attempts h
       \<and> post_calls h' = post_calls h"
proof -
  from uploadMediaToTwitter_history[OF assms] obtain ext
    where h': "h' = h @ HeadImage url # ext" and "list_all media_request ext"
    by blast
  from media_requests_filter[OF this(2)] show ?thesis
    by (simp add: h' upload_attempts_def refresh_attempts_def post_calls_def)
qed

section \<open>The retry budget of the media upload\<close>

lemma counts_append:
  "upload_attempts (h @ ext) = upload_attempts h + upload_attempts ext"
  "refresh_attempts (h @ ext) = refresh_attempts h + refresh_attempts ext"
  "post_calls (h @ ext) = post_calls h + post_calls ext"
  by (simp_all add: upload_attempts_def refresh_attempts_def post_calls_def)

lemma uploadMedia_extends:
  assumes "uploadMedia env url c k h = Some (h', c', r)" and "k \<le> 2"
  shows "\<exists>ext. h' = h @ ext \<and> upload_attempts ext \<le> 3 - k \<and> refresh_attempts ext \<le> 2 - k
       \<and> post_calls ext = 0"
  using assms
proof (induction env url c k h arbitrary: h' c' r rule: uploadMedia.induct)
  case (1 env url c k h)
  from "1.prems" obtain h1 r1
    where up: "uploadMediaToTwitter env url (accessToken (oauthCredentials c)) h = Some (h1, r1)"
    by (subst (asm) uploadMedia.simps) (auto split: option.splits)
  from uploadMediaToTwitter_history[OF up] obtain ext0
    where h1: "h1 = h @ HeadImage url # ext0" and "list_all media_request ext0"
    by blast
  from media_requests_filter[OF this(2)]
  have cnt0: "upload_attempts (HeadImage url # ext0) = 1"
    "refresh_attempts (HeadImage url # ext0) = 0" "post_calls (HeadImage url # ext0) = 0"
    by (simp_all add: upload_attempts_def refresh_attempts_def post_calls_def)
  let ?rq = "OAuthToken (clientId c) (clientSecret c) (refreshToken (oauthCredentials c))"
  show ?case
  proof (cases "\<exists>e a n x uid h2 h3. r1 = Inl e \<and> isAuthError e
        \<and> truthy (refreshToken (oauthCredentials c)) \<and> k < 2
        \<and> refreshTwitterAccessToken env c h1 = (h2, Inr (a, n, x))
        \<and> userId c = Some uid \<and> uid \<noteq> []
        \<and> updateTwitterCredentials env uid a n h2 = (h3, None)")
    case True
    then obtain e a n x uid h2 h3 where t: "r1 = Inl e" "isAuthError e"
        "truthy (refreshToken (oauthCredentials c))" "k < 2"
        and rf: "refreshTwitterAccessToken env c h1 = (h2, Inr (a, n, x))"
        and uid: "userId c = Some uid" "uid \<noteq> []"
        and upd: "updateTwitterCredentials env uid a n h2 = (h3, None)"
      by blast
    have rec: "uploadMedia env url
        (c\<lparr>oauthCredentials := \<lparr>accessToken = a, refreshToken = Some n\<rparr>\<rparr>) (k + 1) h3 = Some (h', c', r)"
      using "1.prems" up t rf uid upd by (subst (asm) uploadMedia.simps) simp
    from "1.IH"[OF up refl t(1) _ rf[symmetric] refl refl refl uid upd[symmetric] refl rec] t
    obtain ext' where IH: "h' = h3 @ ext'" "upload_attempts ext' \<le> 3 - (k + 1)"
        "refresh_attempts ext' \<le> 2 - (k + 1)" "post_calls ext' = 0"
      by auto
    have h3: "h3 = h1 @ [?rq, UpdateCredentials uid a n]"
      using refreshTwitterAccessToken_history[OF rf] updateTwitterCredentials_history[OF upd]
      by simp
    have mid: "upload_attempts [?rq, UpdateCredentials uid a n] = 0"
      "refresh_attempts [?rq, UpdateCredentials uid a n] = 1"
      "post_calls [?rq, UpdateCredentials uid a n] = 0"
      by (simp_all add: upload_attempts_def refresh_attempts_def post_calls_def)
    have "h' = h @ ((HeadImage url # ext0) @ [?rq, UpdateCredentials uid a n] @ ext')"
      using IH(1) h3 h1 by simp
    moreover have "upload_attempts ((HeadImage url # ext0) @ [?rq, UpdateCredentials uid a n] @ ext')
        \<le> 3 - k"
      "refresh_attempts ((HeadImage url # ext0) @ [?rq, UpdateCredentials uid a n] @ ext') \<le> 2 - k"
      "post_calls ((HeadImage url # ext0) @ [?rq, UpdateCredentials uid a n] @ ext') = 0"
      using cnt0 mid IH(2,3,4) t(4) by (simp_all only: counts_append)
    ultimately show ?thesis by blast
  next
    case False
    have "(h' = h1 \<or> h' = h1 @ [?rq] \<or> (\<exists>u a n. h' = h1 @ [?rq, UpdateCredentials u a n]))
          \<and> (h' \<noteq> h1 \<longrightarrow> k < 2)"
      using "1.prems"(1) up False
      apply (subst (asm) uploadMedia.simps)
      apply (auto split: sum.splits if_splits prod.splits option.splits
                  dest!: refreshTwitterAccessToken_history updateTwitterCredentials_history)
      done
    then consider "h' = h @ (HeadImage url # ext0)"
      | "h' = h @ ((HeadImage url # ext0) @ [?rq])" "k < 2"
      | u a n where "h' = h @ ((HeadImage url # ext0) @ [?rq, UpdateCredentials u a n])" "k < 2"
      using h1 by auto
    then show ?thesis
    proof cases
      case 1
      with cnt0 "1.prems"(2) show ?thesis by (intro exI[of _ "HeadImage url # ext0"]) simp
    next
      case 2
      have "upload_attempts ((HeadImage url # ext0) @ [?rq]) = 1"
        "refresh_attempts ((HeadImage url # ext0) @ [?rq]) = 1"
        "post_calls ((HeadImage url # ext0) @ [?rq]) = 0"
        using cnt0 by (simp_all only: counts_append)
                      (simp_all add: upload_attempts_def refresh_attempts_def post_calls_def)
      with 2 show ?thesis by (intro exI[of _ "(HeadImage url # ext0) @ [?rq]"]) auto
    next
      case 3
      have "upload_attempts ((HeadImage url # ext0) @ [?rq, UpdateCredentials u a n]) = 1"
        "refresh_attempts ((HeadImage url # ext0) @ [?rq, UpdateCredentials u a n]) = 1"
        "post_calls ((HeadImage url # ext0) @ [?rq, UpdateCredentials u a n]) = 0"
        using cnt0 by (simp_all only: counts_append)
                      (simp_all add: upload_attempts_def refresh_attempts_def post_calls_def)
      with 3 show ?thesis
        by (intro exI[of _ "(HeadImage url # ext0) @ [?rq, UpdateCredentials u a n]"]) auto
    qed
  qed
qed

lemma uploadMedia_counts:
  assumes "uploadMedia env url c k h = Some (h', c', r)" and "k \<le> 2"
  shows "upload_attempts h' \<le> upload_attempts h + (3 - k)
       \<and> refresh_attempts h' \<le> refresh_attempts h + (2 - k)
       \<and> post_calls h' = post_calls h"
proof -
  from uploadMedia_extends[OF assms] obtain ext
    where "h' = h @ ext" "upload_attempts ext \<le> 3 - k" "refresh_attempts ext \<le> 2 - k"
      "post_calls ext = 0"
    by blast
  then show ?thesis by (simp add: counts_append)
qed

text \<open>
  C2, as the claim states it, fails: with a media endpoint that keeps answering 401 and
  a token endpoint that grants every refresh, one call of \<open>uploadMedia\<close> makes three
  upload attempts and two refresh cycles, one more of each than the claim allows.
\<close>

theorem uploadMedia_three_attempts:
  "uploadMedia unauthorized_upload_provider ''img'' old_credentials 0 [] =
     Some (three_attempts_history, new_credentials, Inl (new_Error ''Error uploading media''))
   \<and> \<not> upload_attempts three_attempts_history \<le> upload_attempts [] + 2
   \<and> \<not> refresh_attempts three_attempts_history \<le> refresh_attempts [] + 1"
  by code_simp

lemma uploadMedia_exhausted:
  assumes "uploadMediaToTwitter env url (accessToken (oauthCredentials c)) h = Some (h1, Inl e)"
  shows "uploadMedia env url c 2 h = Some (h1, c, Inl (new_Error ''Error uploading media''))"
  using assms by (subst uploadMedia.simps) simp

text \<open>
  C2, amended: one call of \<open>uploadMedia\<close> makes at most three upload attempts and at
  most two refresh-then-retry cycles; at the third attempt (retry count 2) a failure of
  the upload, an authentication failure included, is followed by no request at all and
  the call fails with \<open>Error uploading media\<close>.
\<close>

theorem uploadMedia_retry_budget:
  "(uploadMedia env url c 0 h = Some (h', c', r) \<longrightarrow>
      upload_attempts h' \<le> upload_attempts h + 3 \<and> refresh_attempts h' \<le> refresh_attempts h + 2)
   \<and> (uploadMediaToTwitter env url (accessToken (oauthCredentials c)) h = Some (h1, Inl e) \<longrightarrow>
        uploadMedia env url c 2 h = Some (h1, c, Inl (new_Error ''Error uploading media'')))"
proof (intro conjI impI)
  assume "uploadMedia env url c 0 h = Some (h', c', r)"
  from uploadMedia_counts[OF this]
  show "upload_attempts h' \<le> upload_attempts h + 3" "refresh_attempts h' \<le> refresh_attempts h + 2"
    by simp_all
next
  assume "uploadMediaToTwitter env url (accessToken (oauthCredentials c)) h = Some (h1, Inl e)"
  then show "uploadMedia env url c 2 h = Some (h1, c, Inl (new_Error ''Error uploading media''))"
    by (rule uploadMedia_exhausted)
qed

lemma unauthorized_upload_run:
  "uploadMedia unauthorized_upload_provider ''img'' old_credentials 0 [] =
     Some (three_attempts_history, new_credentials, Inl (new_Error ''Error uploading media''))"
  by code_simp

lemma unauthorized_upload_attempt:
  "uploadMediaToTwitter unauthorized_upload_provider ''img''
       (accessToken (oauthCredentials old_credentials)) [] =
     Some ([HeadImage ''img'', MediaInit ''old'' ''10'' ''image/jpeg''],
           Inl (new_Error ''Media upload initialization failed: 401 Unauthorized''))"
  by code_simp

text \<open>C2, at the provider whose media endpoint always answers 401: the run from retry count 0 stays within the bounds, and the attempt at retry count 2 ends the call.\<close>

theorem uploadMedia_retry_budget_witness:
  "upload_attempts three_attempts_history \<le> upload_attempts [] + 3
   \<and> refresh_attempts three_attempts_history \<le> refresh_attempts [] + 2
   \<and> uploadMedia unauthorized_upload_provider ''img'' old_credentials 2 [] =
       Some ([HeadImage ''img'', MediaInit ''old'' ''10'' ''image/jpeg''], old_credentials,
             Inl (new_Error ''Error uploading media''))"
  using uploadMedia_retry_budget[of unauthorized_upload_provider "''img''" old_credentials "[]"
          three_attempts_history new_credentials "Inl (new_Error ''Error uploading media'')"
          "[HeadImage ''img'', MediaInit ''old'' ''10'' ''image/jpeg'']"
          "new_Error ''Media upload initialization failed: 401 Unauthorized''"]
        unauthorized_upload_run unauthorized_upload_attempt
  by blast

section \<open>The processing poll\<close>

lemma poll_succeeded:
  "state info = ''succeeded'' \<Longrightarrow> checkMediaProcessingStatus env m tok info h = Some (h, Inr ())"
  by (subst checkMediaProcessingStatus.simps) simp

lemma poll_again:
  assumes "state info \<noteq> ''succeeded''" and "answers env h (MediaStatus tok m) r"
    and "json r = JsonObject d" and "processing_info d = Some p"
  shows "checkMediaProcessingStatus env m tok info h =
         checkMediaProcessingStatus env m tok p (h @ [MediaStatus tok m])"
  using assms by (subst checkMediaProcessingStatus.simps) (simp add: call_def answers_def)

lemma poll_done:
  assumes "state info \<noteq> ''succeeded''" and "answers env h (MediaStatus tok m) r"
    and "json r = JsonObject d" and "processing_info d = None"
  shows "checkMediaProcessingStatus env m tok info h = Some (h @ [MediaStatus tok m], Inr ())"
  using assms by (subst checkMediaProcessingStatus.simps) (simp add: call_def answers_def)

lemma poll_not_ok:
  assumes "state info \<noteq> ''succeeded''" and "env h (MediaStatus tok m) = Resolves r" and "\<not> ok r"
  shows "checkMediaProcessingStatus env m tok info h =
         Some (h @ [MediaStatus tok m],
               Inl (new_Error (''Failed to check media status: '' @ toString (http_status r)
                      @ '' '' @ statusText r)))"
  using assms by (subst checkMediaProcessingStatus.simps) (simp add: call_def)

lemma still_processing_not_succeeded: "still_processing p \<Longrightarrow> state p \<noteq> ''succeeded''"
  by (auto simp: still_processing_def)

lemma poll_after_pending:
  assumes "still_processing info"
    and "\<forall>i<n. \<exists>r d p. answers env (h @ replicate i (MediaStatus tok m)) (MediaStatus tok m) r
            \<and> json r = JsonObject d \<and> processing_info d = Some p \<and> still_processing p"
  shows "\<exists>p. still_processing p \<and>
           checkMediaProcessingStatus env m tok info h =
           checkMediaProcessingStatus env m tok p (h @ replicate n (MediaStatus tok m))"
  using assms
proof (induction n arbitrary: h info)
  case 0
  then show ?case by auto
next
  case (Suc n)
  from Suc.prems(2) have "\<exists>r d p. answers env (h @ replicate 0 (MediaStatus tok m)) (MediaStatus tok m) r
            \<and> json r = JsonObject d \<and> processing_info d = Some p \<and> still_processing p"
    by blast
  then obtain r d p where first: "answers env h (MediaStatus tok m) r" "json r = JsonObject d"
      "processing_info d = Some p" "still_processing p"
    by auto
  have step: "checkMediaProcessingStatus env m tok info h =
              checkMediaProcessingStatus env m tok p (h @ [MediaStatus tok m])"
    using poll_again[OF still_processing_not_succeeded[OF Suc.prems(1)] first(1,2,3)] .
  have rest: "\<forall>i<n. \<exists>r d p. answers env ((h @ [MediaStatus tok m]) @ replicate i (MediaStatus tok m))
                 (MediaStatus tok m) r
            \<and> json r = JsonObject d \<and> processing_info d = Some p \<and> still_processing p"
  proof (intro allI impI)
    fix i assume "i < n"
    then have "Suc i < Suc n" by simp
    with Suc.prems(2) have "\<exists>r d p. answers env (h @ replicate (Suc i) (MediaStatus tok m))
                 (MediaStatus tok m) r
            \<and> json r = JsonObject d \<and> processing_info d = Some p \<and> still_processing p"
      by blast
    then show "\<exists>r d p. answers env ((h @ [MediaStatus tok m]) @ replicate i (MediaStatus tok m))
                 (MediaStatus tok m) r
            \<and> json r = JsonObject d \<and> processing_info d = Some p \<and> still_processing p"
      by simp
  qed
  from Suc.IH[OF first(4) rest] obtain q where "still_processing q"
    "checkMediaProcessingStatus env m tok p (h @ [MediaStatus tok m]) =
     checkMediaProcessingStatus env m tok q ((h @ [MediaStatus tok m]) @ replicate n (MediaStatus tok m))"
    by blast
  with step show ?case by (intro exI[of _ q]) simp
qed

lemma upload_reaches_poll:
  assumes "answers env h (HeadImage url) r0" and "content_length r0 = Some n" and "n \<noteq> []"
    and "ty = js_or (content_type r0) ''image/jpeg''"
    and "answers env (h @ [HeadImage url]) (MediaInit tok n ty) r1"
    and "json r1 = JsonObject d1" and "data_id d1 = Some (Some m)" and "m \<noteq> []"
    and "answers env (h @ [HeadImage url, MediaInit tok n ty]) (GetImage url) r2"
    and "answers env (h @ [HeadImage url, MediaInit tok n ty, GetImage url]) (MediaAppend tok m) r3"
    and "answers env (h @ [HeadImage url, MediaInit tok n ty, GetImage url, MediaAppend tok m])
           (MediaFinalize tok m) r4"
    and "json r4 = JsonObject d4" and "processing_info d4 = Some info"
  shows "uploadMediaToTwitter env url tok h =
     (case checkMediaProcessingStatus env m tok info (h @ upload_requests url tok n ty m) of
        None \<Rightarrow> None
      | Some (h2, Inl e) \<Rightarrow> Some (h2, Inl e)
      | Some (h2, Inr u) \<Rightarrow> Some (h2, Inr m))"
  using assms
  by (simp add: uploadMediaToTwitter_def init_phase_def append_phase_def finalize_phase_def
        call_def answers_def upload_requests_def)

lemma poll_last:
  assumes "state info \<noteq> ''succeeded''" and "env h (MediaStatus tok m) = Resolves r"
  shows "(ok r \<and> (\<exists>d. json r = JsonObject d \<and> (processing_info d = None
               \<or> (\<exists>p. processing_info d = Some p \<and> state p = ''succeeded''))) \<longrightarrow>
            checkMediaProcessingStatus env m tok info h = Some (h @ [MediaStatus tok m], Inr ()))
       \<and> (\<not> ok r \<longrightarrow>
            checkMediaProcessingStatus env m tok info h =
              Some (h @ [MediaStatus tok m],
                    Inl (new_Error (''Failed to check media status: '' @ toString (http_status r)
                           @ '' '' @ statusText r))))"
proof (intro conjI impI)
  assume a: "ok r \<and> (\<exists>d. json r = JsonObject d \<and> (processing_info d = None
               \<or> (\<exists>p. processing_info d = Some p \<and> state p = ''succeeded'')))"
  then obtain d where d: "json r = JsonObject d"
      "processing_info d = None \<or> (\<exists>p. processing_info d = Some p \<and> state p = ''succeeded'')"
    by blast
  have ans: "answers env h (MediaStatus tok m) r"
    using a assms(2) by (simp add: answers_def)
  from d(2) show "checkMediaProcessingStatus env m tok info h = Some (h @ [MediaStatus tok m], Inr ())"
  proof
    assume "processing_info d = None"
    from poll_done[OF assms(1) ans d(1) this] show ?thesis .
  next
    assume "\<exists>p. processing_info d = Some p \<and> state p = ''succeeded''"
    then obtain p where p: "processing_info d = Some p" "state p = ''succeeded''" by blast
    from poll_again[OF assms(1) ans d(1) p(1)] poll_succeeded[OF p(2)]
    show ?thesis by simp
  qed
next
  assume "\<not> ok r"
  from poll_not_ok[where env = env and h = h, OF assms(1,2) this]
  show "checkMediaProcessingStatus env m tok info h =
              Some (h @ [MediaStatus tok m],
                    Inl (new_Error (''Failed to check media status: '' @ toString (http_status r)
                           @ '' '' @ statusText r)))" .
qed

text \<open>
  The ways in which the poll loop does end. After status responses that are ok and report
  processing still under way (state \<open>pending\<close> or \<open>in_progress\<close>), a status
  response that is ok and reports the state \<open>succeeded\<close>, or carries no processing
  info at all, makes the upload resolve with the media handle; one that is not ok makes
  the upload fail with the error \<open>Failed to check media status\<close>.
\<close>

lemma processing_poll_outcomes:
  assumes "answers env h (HeadImage url) r0" and "content_length r0 = Some n" and "n \<noteq> []"
    and "ty = js_or (content_type r0) ''image/jpeg''"
    and "answers env (h @ [HeadImage url]) (MediaInit tok n ty) r1"
    and "json r1 = JsonObject d1" and "data_id d1 = Some (Some m)" and "m \<noteq> []"
    and "answers env (h @ [HeadImage url, MediaInit tok n ty]) (GetImage url) r2"
    and "answers env (h @ [HeadImage url, MediaInit tok n ty, GetImage url]) (MediaAppend tok m) r3"
    and "answers env (h @ [HeadImage url, MediaInit tok n ty, GetImage url, MediaAppend tok m])
           (MediaFinalize tok m) r4"
    and "json r4 = JsonObject d4" and "processing_info d4 = Some info" and "still_processing info"
    and "\<forall>i<k. \<exists>r d p.
           answers env ((h @ upload_requests url tok n ty m) @ replicate i (MediaStatus tok m))
             (MediaStatus tok m) r
           \<and> json r = JsonObject d \<and> processing_info d = Some p \<and> still_processing p"
    and "env ((h @ upload_requests url tok n ty m) @ replicate k (MediaStatus tok m))
           (MediaStatus tok m) = Resolves r"
  shows "(ok r \<and> (\<exists>d. json r = JsonObject d \<and> (processing_info d = None
               \<or> (\<exists>p. processing_info d = Some p \<and> state p = ''succeeded''))) \<longrightarrow>
            uploadMediaToTwitter env url tok h =
              Some ((h @ upload_requests url tok n ty m) @ replicate (Suc k) (MediaStatus tok m),
                    Inr m))
       \<and> (\<not> ok r \<longrightarrow>
            uploadMediaToTwitter env url tok h =
              Some ((h @ upload_requests url tok n ty m) @ replicate (Suc k) (MediaStatus tok m),
                    Inl (new_Error (''Failed to check media status: '' @ toString (http_status r)
                           @ '' '' @ statusText r))))"
proof -
  let ?hF = "h @ upload_requests url tok n ty m"
  let ?rq = "MediaStatus tok m"
  have up: "uploadMediaToTwitter env url tok h =
     (case checkMediaProcessingStatus env m tok info ?hF of
        None \<Rightarrow> None
      | Some (h2, Inl e) \<Rightarrow> Some (h2, Inl e)
      | Some (h2, Inr u) \<Rightarrow> Some (h2, Inr m))"
    using assms(1-13) by (rule upload_reaches_poll)
  from poll_after_pending[OF assms(14,15)] obtain p where p: "still_processing p"
    "checkMediaProcessingStatus env m tok info ?hF =
     checkMediaProcessingStatus env m tok p (?hF @ replicate k ?rq)"
    by blast
  have ext: "(?hF @ replicate k ?rq) @ [?rq] = ?hF @ replicate (Suc k) ?rq"
    by (simp add: replicate_append_same)
  from poll_last[where env = env and h = "?hF @ replicate k ?rq",
         OF still_processing_not_succeeded[OF p(1)] assms(16)] up p(2) ext
  show ?thesis by auto
qed

lemma slow_processing_polls:
  "\<forall>i<2. \<exists>r d p.
     answers slow_processing_provider
       (([] @ upload_requests ''img'' ''tok'' ''10'' ''image/jpeg'' ''m1'')
          @ replicate i (MediaStatus ''tok'' ''m1''))
       (MediaStatus ''tok'' ''m1'') r
     \<and> json r = JsonObject d \<and> processing_info d = Some p \<and> still_processing p"
proof (intro allI impI)
  fix i :: nat assume "i < 2"
  then have "i = 0 \<or> i = 1" by auto
  then have "slow_processing_provider
       (([] @ upload_requests ''img'' ''tok'' ''10'' ''image/jpeg'' ''m1'')
          @ replicate i (MediaStatus ''tok'' ''m1''))
       (MediaStatus ''tok'' ''m1'') = processing ''in_progress''"
    by (auto simp: slow_processing_provider_def upload_requests_def status_polls_def)
  then show "\<exists>r d p.
     answers slow_processing_provider
       (([] @ upload_requests ''img'' ''tok'' ''10'' ''image/jpeg'' ''m1'')
          @ replicate i (MediaStatus ''tok'' ''m1''))
       (MediaStatus ''tok'' ''m1'') r
     \<and> json r = JsonObject d \<and> processing_info d = Some p \<and> still_processing p"
    by (simp add: answers_def processing_def json_ok_def http_def ok_def still_processing_def)
qed

text \<open>
  At the provider that reports \<open>in_progress\<close> twice and then \<open>succeeded\<close>, the
  upload resolves with the media handle after three polls.
\<close>

lemma slow_processing_ends:
  "uploadMediaToTwitter slow_processing_provider ''img'' ''tok'' [] =
     Some ([HeadImage ''img'', MediaInit ''tok'' ''10'' ''image/jpeg'', GetImage ''img'',
            MediaAppend ''tok'' ''m1'', MediaFinalize ''tok'' ''m1'', MediaStatus ''tok'' ''m1'',
            MediaStatus ''tok'' ''m1'', MediaStatus ''tok'' ''m1''], Inr ''m1'')"
proof -
  let ?ok = "http 200 ''OK''"
  let ?env = slow_processing_provider
  let ?pend = "\<lparr>state = ''pending'', check_after_secs = Some 1\<rparr>"
  let ?done = "\<lparr>state = ''succeeded'', check_after_secs = Some 1\<rparr>"
  have ok: "ok ?ok" by (simp add: ok_def http_def)
  have 1: "answers ?env [] (HeadImage ''img'') (?ok\<lparr>content_length := Some ''10''\<rparr>)"
    by (simp add: answers_def slow_processing_provider_def ok_def http_def)
  have 2: "answers ?env ([] @ [HeadImage ''img'']) (MediaInit ''tok'' ''10'' ''image/jpeg'')
             (?ok\<lparr>json := JsonObject (empty_object\<lparr>data_id := Some (Some ''m1'')\<rparr>)\<rparr>)"
    by (simp add: answers_def slow_processing_provider_def ok_def http_def json_ok_def)
  have 3: "answers ?env ([] @ [HeadImage ''img'', MediaInit ''tok'' ''10'' ''image/jpeg''])
             (GetImage ''img'') ?ok"
    by (simp add: answers_def slow_processing_provider_def ok_def http_def)
  have 4: "answers ?env ([] @ [HeadImage ''img'', MediaInit ''tok'' ''10'' ''image/jpeg'',
               GetImage ''img'']) (MediaAppend ''tok'' ''m1'') ?ok"
    by (simp add: answers_def slow_processing_provider_def ok_def http_def)
  have 5: "answers ?env ([] @ [HeadImage ''img'', MediaInit ''tok'' ''10'' ''image/jpeg'',
               GetImage ''img'', MediaAppend ''tok'' ''m1'']) (MediaFinalize ''tok'' ''m1'')
             (?ok\<lparr>json := JsonObject (empty_object\<lparr>processing_info := Some ?pend\<rparr>)\<rparr>)"
    by (simp add: answers_def slow_processing_provider_def ok_def http_def json_ok_def
          processing_def)
  have 6: "?env (([] @ upload_requests ''img'' ''tok'' ''10'' ''image/jpeg'' ''m1'')
             @ replicate 2 (MediaStatus ''tok'' ''m1'')) (MediaStatus ''tok'' ''m1'')
           = Resolves (?ok\<lparr>json := JsonObject (empty_object\<lparr>processing_info := Some ?done\<rparr>)\<rparr>)"
    by (simp add: slow_processing_provider_def upload_requests_def status_polls_def
          numeral_2_eq_2 processing_def json_ok_def)
  have ty: "''image/jpeg'' = js_or (content_type (?ok\<lparr>content_length := Some ''10''\<rparr>)) ''image/jpeg''"
    by (simp add: js_or_def http_def)
  from processing_poll_outcomes[OF 1 _ _ ty 2 _ _ _ 3 4 5 _ _ _ slow_processing_polls 6,
      of "empty_object\<lparr>data_id := Some (Some ''m1'')\<rparr>"
         "empty_object\<lparr>processing_info := Some ?pend\<rparr>" ?pend]
  show ?thesis
    by (simp add: http_def ok_def still_processing_def upload_requests_def numeral_2_eq_2
          numeral_3_eq_3)
qed

lemma failed_poll_never_returns:
  assumes "checkMediaProcessingStatus env m tok info h = Some y"
  shows "state info \<noteq> ''succeeded'' \<longrightarrow>
         (\<forall>k. \<exists>r d p. answers env (h @ replicate k (MediaStatus tok m)) (MediaStatus tok m) r
                 \<and> json r = JsonObject d \<and> processing_info d = Some p \<and> state p = ''failed'')
         \<longrightarrow> False"
proof (rule checkMediaProcessingStatus.raw_induct
    [where P = "\<lambda>env m tok info h y.
                  state info \<noteq> ''succeeded'' \<longrightarrow>
                  (\<forall>k. \<exists>r d p. answers env (h @ replicate k (MediaStatus tok m))
                                  (MediaStatus tok m) r
                          \<and> json r = JsonObject d \<and> processing_info d = Some p
                          \<and> state p = ''failed'')
                  \<longrightarrow> False",
     OF _ assms], goal_cases)
  case (1 f env m tok info h y)
  show ?case
  proof (intro impI)
    assume s: "state info \<noteq> ''succeeded''"
      and polls: "\<forall>k. \<exists>r d p. answers env (h @ replicate k (MediaStatus tok m))
                                  (MediaStatus tok m) r
                          \<and> json r = JsonObject d \<and> processing_info d = Some p
                          \<and> state p = ''failed''"
    from polls have "\<exists>r d p. answers env (h @ replicate 0 (MediaStatus tok m))
                                  (MediaStatus tok m) r
                          \<and> json r = JsonObject d \<and> processing_info d = Some p
                          \<and> state p = ''failed''"
      by (rule spec)
    then obtain r d p where first: "answers env h (MediaStatus tok m) r" "json r = JsonObject d"
        "processing_info d = Some p" "state p = ''failed''"
      by auto
    from 1(2) s first have next_poll: "f env m tok p (h @ [MediaStatus tok m]) = Some y"
      by (simp add: call_def answers_def)
    have later: "\<forall>k. \<exists>r d p. answers env ((h @ [MediaStatus tok m]) @ replicate k (MediaStatus tok m))
                                  (MediaStatus tok m) r
                          \<and> json r = JsonObject d \<and> processing_info d = Some p
                          \<and> state p = ''failed''"
    proof
      fix k
      from polls have "\<exists>r d p. answers env (h @ replicate (Suc k) (MediaStatus tok m))
                                  (MediaStatus tok m) r
                          \<and> json r = JsonObject d \<and> processing_info d = Some p
                          \<and> state p = ''failed''"
        by (rule spec)
      then show "\<exists>r d p. answers env ((h @ [MediaStatus tok m]) @ replicate k (MediaStatus tok m))
                                  (MediaStatus tok m) r
                          \<and> json r = JsonObject d \<and> processing_info d = Some p
                          \<and> state p = ''failed''"
        by simp
    qed
    have "state p \<noteq> ''succeeded''" using first(4) by simp
    with 1(1)[OF next_poll] later show False by blast
  qed
qed

text \<open>
  C8 fails on the code. \<open>checkMediaProcessingStatus\<close> looks for the state
  \<open>succeeded\<close> only and polls again on any other processing info, the state
  \<open>failed\<close> included. When the finalize response reports processing and the status
  endpoint then answers every poll with the state \<open>failed\<close>, the poll loop never ends:
  the upload neither resolves nor fails.
\<close>

theorem failed_state_is_polled_for_ever:
  assumes "answers env h (HeadImage url) r0" and "content_length r0 = Some n" and "n \<noteq> []"
    and "ty = js_or (content_type r0) ''image/jpeg''"
    and "answers env (h @ [HeadImage url]) (MediaInit tok n ty) r1"
    and "json r1 = JsonObject d1" and "data_id d1 = Some (Some m)" and "m \<noteq> []"
    and "answers env (h @ [HeadImage url, MediaInit tok n ty]) (GetImage url) r2"
    and "answers env (h @ [HeadImage url, MediaInit tok n ty, GetImage url]) (MediaAppend tok m) r3"
    and "answers env (h @ [HeadImage url, MediaInit tok n ty, GetImage url, MediaAppend tok m])
           (MediaFinalize tok m) r4"
    and "json r4 = JsonObject d4" and "processing_info d4 = Some info"
    and "state info \<noteq> ''succeeded''"
    and "\<forall>k. \<exists>r d p.
           answers env ((h @ upload_requests url tok n ty m) @ replicate k (MediaStatus tok m))
             (MediaStatus tok m) r
           \<and> json r = JsonObject d \<and> processing_info d = Some p \<and> state p = ''failed''"
  shows "uploadMediaToTwitter env url tok h = None"
proof -
  let ?hF = "h @ upload_requests url tok n ty m"
  have up: "uploadMediaToTwitter env url tok h =
     (case checkMediaProcessingStatus env m tok info ?hF of
        None \<Rightarrow> None
      | Some (h2, Inl e) \<Rightarrow> Some (h2, Inl e)
      | Some (h2, Inr u) \<Rightarrow> Some (h2, Inr m))"
    using assms(1-13) by (rule upload_reaches_poll)
  have "checkMediaProcessingStatus env m tok info ?hF = None"
  proof (cases "checkMediaProcessingStatus env m tok info ?hF")
    case (Some y)
    from failed_poll_never_returns[OF this] assms(14,15) show ?thesis by blast
  qed simp
  with up show ?thesis by simp
qed

text \<open>
  C8, at a provider whose finalize response reports the state \<open>pending\<close> and whose
  status endpoint reports the state \<open>failed\<close> to every poll: the upload never returns.
\<close>

theorem failed_processing_never_ends:
  "failed_processing_provider (upload_requests ''img'' ''tok'' ''10'' ''image/jpeg'' ''m1'')
       (MediaStatus ''tok'' ''m1'') = processing ''failed''
   \<and> uploadMediaToTwitter failed_processing_provider ''img'' ''tok'' [] = None"
proof -
  let ?ok = "http 200 ''OK''"
  let ?env = failed_processing_provider
  let ?pend = "\<lparr>state = ''pending'', check_after_secs = Some 1\<rparr>"
  let ?failed = "\<lparr>state = ''failed'', check_after_secs = Some 1\<rparr>"
  have 1: "answers ?env [] (HeadImage ''img'') (?ok\<lparr>content_length := Some ''10''\<rparr>)"
    by (simp add: answers_def failed_processing_provider_def ok_def http_def)
  have 2: "answers ?env ([] @ [HeadImage ''img'']) (MediaInit ''tok'' ''10'' ''image/jpeg'')
             (?ok\<lparr>json := JsonObject (empty_object\<lparr>data_id := Some (Some ''m1'')\<rparr>)\<rparr>)"
    by (simp add: answers_def failed_processing_provider_def ok_def http_def json_ok_def)
  have 3: "answers ?env ([] @ [HeadImage ''img'', MediaInit ''tok'' ''10'' ''image/jpeg''])
             (GetImage ''img'') ?ok"
    by (simp add: answers_def failed_processing_provider_def ok_def http_def)
  have 4: "answers ?env ([] @ [HeadImage ''img'', MediaInit ''tok'' ''10'' ''image/jpeg'',
               GetImage ''img'']) (MediaAppend ''tok'' ''m1'') ?ok"
    by (simp add: answers_def failed_processing_provider_def ok_def http_def)
  have 5: "answers ?env ([] @ [HeadImage ''img'', MediaInit ''tok'' ''10'' ''image/jpeg'',
               GetImage ''img'', MediaAppend ''tok'' ''m1'']) (MediaFinalize ''tok'' ''m1'')
             (?ok\<lparr>json := JsonObject (empty_object\<lparr>processing_info := Some ?pend\<rparr>)\<rparr>)"
    by (simp add: answers_def failed_processing_provider_def ok_def http_def json_ok_def
          processing_def)
  have 6: "state ?pend \<noteq> ''succeeded''" by simp
  have 7: "\<forall>k. \<exists>r d p.
       answers ?env (([] @ upload_requests ''img'' ''tok'' ''10'' ''image/jpeg'' ''m1'')
                       @ replicate k (MediaStatus ''tok'' ''m1''))
         (MediaStatus ''tok'' ''m1'') r
       \<and> json r = JsonObject d \<and> processing_info d = Some p \<and> state p = ''failed''"
    by (simp add: answers_def failed_processing_provider_def processing_def json_ok_def
          http_def ok_def)
  have ty: "''image/jpeg'' = js_or (content_type (?ok\<lparr>content_length := Some ''10''\<rparr>)) ''image/jpeg''"
    by (simp add: js_or_def http_def)
  from failed_state_is_polled_for_ever[OF 1 _ _ ty 2 _ _ _ 3 4 5 _ _ 6 7,
      of "empty_object\<lparr>data_id := Some (Some ''m1'')\<rparr>"
         "empty_object\<lparr>processing_info := Some ?pend\<rparr>"]
  have "uploadMediaToTwitter ?env ''img'' ''tok'' [] = None"
    by (simp add: http_def)
  then show ?thesis
    by (simp add: failed_processing_provider_def)
qed

section \<open>Publishing one tweet: refresh and retry\<close>


lemma publishTweet_error_shape:
  assumes "publishTweet env tok p h = (h', Inl e)"
  shows "err_status e = None \<and> err_statusCode e = None"
  using assms
  by (auto simp: publishTweet_def call_def new_Error_def TypeError_def
           split: outcome.splits json_body.splits if_splits)


lemma api_error_fields:
  "\<not> success (api_error e) \<and> message (api_error e) = ''Failed to publish tweet''
   \<and> map_option code (error (api_error e)) = Some (Some (Code ''api_error''))"
  by (simp add: api_error_def)

text \<open>
  C9, as the claim states it, fails: a post that the provider answers with status 403 and
  a detail that contains the digits 401 counts as an authentication error, and a token
  refresh is attempted.
\<close>

theorem forbidden_post_triggers_refresh:
  "publishTweet (refusing_provider 403 ''Forbidden (request 401)'' False) ''old''
       (payload_of plain_tweet) [] =
     ([PostTweets ''old'' (payload_of plain_tweet)],
      Inl \<lparr>err_message = ''Forbidden (request 401)'', err_code = Some 403, err_status = None,
           err_statusCode = None\<rparr>)
   \<and> publishTweetWithRefresh (refusing_provider 403 ''Forbidden (request 401)'' False)
         old_credentials plain_tweet [] =
       Some ([PostTweets ''old'' (payload_of plain_tweet),
              OAuthToken ''id'' ''secret'' (Some ''r0'')],
             old_credentials, token_expired (new_Error ''offline''))"
  by code_simp

text \<open>
  C9, amended: when the post call fails with an error whose status code is not 401 and
  whose message does not contain \<open>401\<close>, the post call is the last request of
  \<open>publishTweetWithRefresh\<close>: no refresh is attempted, no post is retried, and the
  result is unsuccessful with the code \<open>api_error\<close>.
\<close>

theorem other_failure_is_final:
  assumes "text options = Some t"
    and "prepareTweetPayload env options (accessToken (oauthCredentials c)) c h = Some (h1, c1, Inr p)"
    and "publishTweet env (accessToken (oauthCredentials c)) p h1 = (h2, Inl e)"
    and "err_code e \<noteq> Some 401" and "\<not> js_includes (err_message e) ''401''"
  shows "publishTweetWithRefresh env c options h =
           Some (h1 @ [PostTweets (accessToken (oauthCredentials c)) p], c1, api_error e)
       \<and> \<not> success (api_error e)
       \<and> map_option code (error (api_error e)) = Some (Some (Code ''api_error''))"
proof -
  from publishTweet_error_shape[OF assms(3)] assms(4,5) have "\<not> isAuthError e"
    by (simp add: isAuthError_def)
  moreover have "h2 = h1 @ [PostTweets (accessToken (oauthCredentials c)) p]"
    using publishTweet_history[OF assms(3)] .
  ultimately show ?thesis
    using assms(1,2,3) by (simp add: publishTweetWithRefresh_def try_publish_def api_error_fields)
qed

text \<open>C9, at a provider that answers the post with status 500: the post call is the only request.\<close>

theorem other_failure_is_final_witness:
  "publishTweetWithRefresh (refusing_provider 500 ''Server error'' False) old_credentials
       plain_tweet [] =
     Some ([] @ [PostTweets (accessToken (oauthCredentials old_credentials)) (payload_of plain_tweet)],
           old_credentials,
           api_error \<lparr>err_message = ''Server error'', err_code = Some 500, err_status = None,
                      err_statusCode = None\<rparr>)
   \<and> \<not> success (api_error \<lparr>err_message = ''Server error'', err_code = Some 500,
                              err_status = None, err_statusCode = None\<rparr>)
   \<and> map_option code (error (api_error \<lparr>err_message = ''Server error'', err_code = Some 500,
                              err_status = None, err_statusCode = None\<rparr>))
       = Some (Some (Code ''api_error''))"
proof (rule other_failure_is_final)
  show "text plain_tweet = Some ''hello''" by (simp add: plain_tweet_def)
  show "prepareTweetPayload (refusing_provider 500 ''Server error'' False) plain_tweet
          (accessToken (oauthCredentials old_credentials)) old_credentials [] =
        Some ([], old_credentials, Inr (payload_of plain_tweet))"
    by (simp add: prepareTweetPayload_def plain_tweet_def truthy_def)
  show "publishTweet (refusing_provider 500 ''Server error'' False)
          (accessToken (oauthCredentials old_credentials)) (payload_of plain_tweet) [] =
        ([PostTweets (accessToken (oauthCredentials old_credentials)) (payload_of plain_tweet)],
         Inl \<lparr>err_message = ''Server error'', err_code = Some 500, err_status = None,
              err_statusCode = None\<rparr>)"
    by code_simp
  show "err_code \<lparr>err_message = ''Server error'', err_code = Some 500, err_status = None,
                  err_statusCode = None\<rparr> \<noteq> Some 401"
    by simp
  show "\<not> js_includes (err_message \<lparr>err_message = ''Server error'', err_code = Some 500,
                  err_status = None, err_statusCode = None\<rparr>) ''401''"
    by simp
qed










text \<open>
  C10: once the post call has failed with an authentication error and the refresh has
  returned a token pair, whatever then fails is reported with \<open>success = false\<close>, the
  message \<open>Twitter authentication failed\<close>, the code \<open>token_expired\<close>, the details
  that tell the user to reconnect the account, and the message of the failure as the
  original error: a missing user id, the store rejecting the new pair, the media upload
  of the retried attempt failing, the retried post call failing with whatever status, a
  response to it without a post id. No unsuccessful result of another kind is possible.
\<close>

theorem retry_failure_is_token_expired:
  assumes "text options = Some t"
    and "prepareTweetPayload env options (accessToken (oauthCredentials c)) c h = Some (h1, c1, Inr p)"
    and "publishTweet env (accessToken (oauthCredentials c)) p h1 = (h2, Inl e)"
    and "isAuthError e" and "truthy (refreshToken (oauthCredentials c1))"
    and "refreshTwitterAccessToken env c1 h2 = (h3, Inr (a, n, x))"
  shows "(\<not> truthy (userId c1) \<longrightarrow>
            publishTweetWithRefresh env c options h =
              Some (h3, c1,
                \<lparr>success = False, twitterTweetId = None, r_publishedTweetId = None,
                 message = ''Twitter authentication failed'',
                 error = Some \<lparr>details = Some
                   ''Your Twitter connection has expired. Please reconnect your Twitter account.'',
                   code = Some (Code ''token_expired''), originalError = Some ''User ID is required for token refresh'',
                   error_status = None\<rparr>\<rparr>))
       \<and> (\<forall>h4 e'. truthy (userId c1) \<longrightarrow>
            updateTwitterCredentials env (js_str (userId c1)) a n h3 = (h4, Some e') \<longrightarrow>
            publishTweetWithRefresh env c options h =
              Some (h4, c1,
                \<lparr>success = False, twitterTweetId = None, r_publishedTweetId = None,
                 message = ''Twitter authentication failed'',
                 error = Some \<lparr>details = Some
                   ''Your Twitter connection has expired. Please reconnect your Twitter account.'',
                   code = Some (Code ''token_expired''), originalError = Some (err_message e'),
                   error_status = None\<rparr>\<rparr>))
       \<and> (\<forall>h4 h5 c5 e'. truthy (userId c1) \<longrightarrow>
            updateTwitterCredentials env (js_str (userId c1)) a n h3 = (h4, None) \<longrightarrow>
            prepareTweetPayload env options a c1 h4 = Some (h5, c5, Inl e') \<longrightarrow>
            publishTweetWithRefresh env c options h =
              Some (h5, c5,
                \<lparr>success = False, twitterTweetId = None, r_publishedTweetId = None,
                 message = ''Twitter authentication failed'',
                 error = Some \<lparr>details = Some
                   ''Your Twitter connection has expired. Please reconnect your Twitter account.'',
                   code = Some (Code ''token_expired''), originalError = Some (err_message e'),
                   error_status = None\<rparr>\<rparr>))
       \<and> (\<forall>h4 h5 c5 p' h6 e'. truthy (userId c1) \<longrightarrow>
            updateTwitterCredentials env (js_str (userId c1)) a n h3 = (h4, None) \<longrightarrow>
            prepareTweetPayload env options a c1 h4 = Some (h5, c5, Inr p') \<longrightarrow>
            publishTweet env a p' h5 = (h6, Inl e') \<longrightarrow>
            publishTweetWithRefresh env c options h =
              Some (h6, c5,
                \<lparr>success = False, twitterTweetId = None, r_publishedTweetId = None,
                 message = ''Twitter authentication failed'',
                 error = Some \<lparr>details = Some
                   ''Your Twitter connection has expired. Please reconnect your Twitter account.'',
                   code = Some (Code ''token_expired''), originalError = Some (err_message e'),
                   error_status = None\<rparr>\<rparr>))
       \<and> (\<forall>h4 h5 c5 p' h6 d e'. truthy (userId c1) \<longrightarrow>
            updateTwitterCredentials env (js_str (userId c1)) a n h3 = (h4, None) \<longrightarrow>
            prepareTweetPayload env options a c1 h4 = Some (h5, c5, Inr p') \<longrightarrow>
            publishTweet env a p' h5 = (h6, Inr d) \<longrightarrow> published_id d = Inl e' \<longrightarrow>
            publishTweetWithRefresh env c options h =
              Some (h6, c5,
                \<lparr>success = False, twitterTweetId = None, r_publishedTweetId = None,
                 message = ''Twitter authentication failed'',
                 error = Some \<lparr>details = Some
                   ''Your Twitter connection has expired. Please reconnect your Twitter account.'',
                   code = Some (Code ''token_expired''), originalError = Some (err_message e'),
                   error_status = None\<rparr>\<rparr>))
       \<and> (\<forall>h' c' r. publishTweetWithRefresh env c options h = Some (h', c', r) \<longrightarrow>
            \<not> success r \<longrightarrow>
            (\<exists>m. r =
                \<lparr>success = False, twitterTweetId = None, r_publishedTweetId = None,
                 message = ''Twitter authentication failed'',
                 error = Some \<lparr>details = Some
                   ''Your Twitter connection has expired. Please reconnect your Twitter account.'',
                   code = Some (Code ''token_expired''), originalError = Some m,
                   error_status = None\<rparr>\<rparr>))"
proof -
  have first: "try_publish env c options (accessToken (oauthCredentials c)) h = Some (h2, c1, Inl e)"
    using assms(1,2,3) by (simp add: try_publish_def)
  have outer: "publishTweetWithRefresh env c options h =
      (case try_refresh_and_publish env c1 options h2 of
         None \<Rightarrow> None
       | Some (h', c', Inr r) \<Rightarrow> Some (h', c', r)
       | Some (h', c', Inl e') \<Rightarrow> Some (h', c', token_expired e'))"
    using first assms(4,5) by (simp add: publishTweetWithRefresh_def)
  have no_id: "\<not> truthy (userId c1) \<longrightarrow>
            publishTweetWithRefresh env c options h =
              Some (h3, c1,
                \<lparr>success = False, twitterTweetId = None, r_publishedTweetId = None,
                 message = ''Twitter authentication failed'',
                 error = Some \<lparr>details = Some
                   ''Your Twitter connection has expired. Please reconnect your Twitter account.'',
                   code = Some (Code ''token_expired''), originalError = Some ''User ID is required for token refresh'',
                   error_status = None\<rparr>\<rparr>)"
    using outer assms(6)
    by (simp add: try_refresh_and_publish_def token_expired_def new_Error_def)
  have store: "\<forall>h4 e'. truthy (userId c1) \<longrightarrow>
            updateTwitterCredentials env (js_str (userId c1)) a n h3 = (h4, Some e') \<longrightarrow>
            publishTweetWithRefresh env c options h =
              Some (h4, c1,
                \<lparr>success = False, twitterTweetId = None, r_publishedTweetId = None,
                 message = ''Twitter authentication failed'',
                 error = Some \<lparr>details = Some
                   ''Your Twitter connection has expired. Please reconnect your Twitter account.'',
                   code = Some (Code ''token_expired''), originalError = Some (err_message e'),
                   error_status = None\<rparr>\<rparr>)"
    using outer assms(6) by (simp add: try_refresh_and_publish_def token_expired_def)
  have media: "\<forall>h4 h5 c5 e'. truthy (userId c1) \<longrightarrow>
            updateTwitterCredentials env (js_str (userId c1)) a n h3 = (h4, None) \<longrightarrow>
            prepareTweetPayload env options a c1 h4 = Some (h5, c5, Inl e') \<longrightarrow>
            publishTweetWithRefresh env c options h =
              Some (h5, c5,
                \<lparr>success = False, twitterTweetId = None, r_publishedTweetId = None,
                 message = ''Twitter authentication failed'',
                 error = Some \<lparr>details = Some
                   ''Your Twitter connection has expired. Please reconnect your Twitter account.'',
                   code = Some (Code ''token_expired''), originalError = Some (err_message e'),
                   error_status = None\<rparr>\<rparr>)"
    using outer assms(6) by (simp add: try_refresh_and_publish_def token_expired_def)
  have post: "\<forall>h4 h5 c5 p' h6 e'. truthy (userId c1) \<longrightarrow>
            updateTwitterCredentials env (js_str (userId c1)) a n h3 = (h4, None) \<longrightarrow>
            prepareTweetPayload env options a c1 h4 = Some (h5, c5, Inr p') \<longrightarrow>
            publishTweet env a p' h5 = (h6, Inl e') \<longrightarrow>
            publishTweetWithRefresh env c options h =
              Some (h6, c5,
                \<lparr>success = False, twitterTweetId = None, r_publishedTweetId = None,
                 message = ''Twitter authentication failed'',
                 error = Some \<lparr>details = Some
                   ''Your Twitter connection has expired. Please reconnect your Twitter account.'',
                   code = Some (Code ''token_expired''), originalError = Some (err_message e'),
                   error_status = None\<rparr>\<rparr>)"
    using outer assms(6) by (simp add: try_refresh_and_publish_def token_expired_def)
  have body: "\<forall>h4 h5 c5 p' h6 d e'. truthy (userId c1) \<longrightarrow>
            updateTwitterCredentials env (js_str (userId c1)) a n h3 = (h4, None) \<longrightarrow>
            prepareTweetPayload env options a c1 h4 = Some (h5, c5, Inr p') \<longrightarrow>
            publishTweet env a p' h5 = (h6, Inr d) \<longrightarrow> published_id d = Inl e' \<longrightarrow>
            publishTweetWithRefresh env c options h =
              Some (h6, c5,
                \<lparr>success = False, twitterTweetId = None, r_publishedTweetId = None,
                 message = ''Twitter authentication failed'',
                 error = Some \<lparr>details = Some
                   ''Your Twitter connection has expired. Please reconnect your Twitter account.'',
                   code = Some (Code ''token_expired''), originalError = Some (err_message e'),
                   error_status = None\<rparr>\<rparr>)"
    using outer assms(6) by (simp add: try_refresh_and_publish_def token_expired_def)
  have any: "\<forall>h' c' r. publishTweetWithRefresh env c options h = Some (h', c', r) \<longrightarrow>
            \<not> success r \<longrightarrow>
            (\<exists>m. r =
                \<lparr>success = False, twitterTweetId = None, r_publishedTweetId = None,
                 message = ''Twitter authentication failed'',
                 error = Some \<lparr>details = Some
                   ''Your Twitter connection has expired. Please reconnect your Twitter account.'',
                   code = Some (Code ''token_expired''), originalError = Some m,
                   error_status = None\<rparr>\<rparr>)"
  proof (intro allI impI)
    fix h' c' r
    assume res: "publishTweetWithRefresh env c options h = Some (h', c', r)" and "\<not> success r"
    from res outer obtain y where y: "try_refresh_and_publish env c1 options h2 = Some (h', c', y)"
      by (auto split: option.splits sum.splits)
    show "\<exists>m. r =
                \<lparr>success = False, twitterTweetId = None, r_publishedTweetId = None,
                 message = ''Twitter authentication failed'',
                 error = Some \<lparr>details = Some
                   ''Your Twitter connection has expired. Please reconnect your Twitter account.'',
                   code = Some (Code ''token_expired''), originalError = Some m,
                   error_status = None\<rparr>\<rparr>"
    proof (cases y)
      case (Inl e')
      with res outer y have "r = token_expired e'" by simp
      then show ?thesis by (intro exI[of _ "err_message e'"]) (simp add: token_expired_def)
    next
      case (Inr r')
      with res outer y have "r' = r" by simp
      with y Inr have "success r"
        by (auto simp: try_refresh_and_publish_def
                 split: prod.splits sum.splits if_splits option.splits)
      with \<open>\<not> success r\<close> show ?thesis by simp
    qed
  qed
  show ?thesis
    by (rule conjI[OF no_id conjI[OF store conjI[OF media conjI[OF post conjI[OF body any]]]]])
qed

text \<open>
  C10, at a provider that answers 401 to the old token and 403 to the new one: the retried
  post call fails with status 403, and the result is the failure \<open>token_expired\<close>.
\<close>

theorem retry_failure_is_token_expired_witness:
  "publishTweetWithRefresh forbidding_provider old_credentials plain_tweet [] =
     Some ([PostTweets ''old'' (payload_of plain_tweet),
            OAuthToken ''id'' ''secret'' (Some ''r0''), UpdateCredentials ''u'' ''new'' ''r1'',
            PostTweets ''new'' (payload_of plain_tweet)],
           old_credentials,
           \<lparr>success = False, twitterTweetId = None, r_publishedTweetId = None,
            message = ''Twitter authentication failed'',
            error = Some \<lparr>details = Some
              ''Your Twitter connection has expired. Please reconnect your Twitter account.'',
              code = Some (Code ''token_expired''), originalError = Some ''Forbidden'',
              error_status = None\<rparr>\<rparr>)"
proof -
  let ?env = forbidding_provider
  let ?h2 = "[PostTweets ''old'' (payload_of plain_tweet)]"
  let ?h3 = "?h2 @ [OAuthToken ''id'' ''secret'' (Some ''r0'')]"
  let ?h4 = "?h3 @ [UpdateCredentials ''u'' ''new'' ''r1'']"
  have 1: "text plain_tweet = Some ''hello''" by (simp add: plain_tweet_def)
  have 2: "prepareTweetPayload ?env plain_tweet (accessToken (oauthCredentials old_credentials))
             old_credentials [] = Some ([], old_credentials, Inr (payload_of plain_tweet))"
    by (simp add: prepareTweetPayload_def plain_tweet_def truthy_def)
  have 3: "publishTweet ?env (accessToken (oauthCredentials old_credentials))
             (payload_of plain_tweet) [] = (?h2, Inl unauthorized)"
    by code_simp
  have 4: "isAuthError unauthorized" by (simp add: isAuthError_def unauthorized_def)
  have 5: "truthy (refreshToken (oauthCredentials old_credentials))"
    by (simp add: old_credentials_def truthy_def)
  have 6: "refreshTwitterAccessToken ?env old_credentials ?h2 = (?h3, Inr (''new'', ''r1'', None))"
    by code_simp
  have 7: "truthy (userId old_credentials)" by (simp add: old_credentials_def truthy_def)
  have 8: "updateTwitterCredentials ?env (js_str (userId old_credentials)) ''new'' ''r1'' ?h3 =
             (?h4, None)"
    by code_simp
  have 9: "prepareTweetPayload ?env plain_tweet ''new'' old_credentials ?h4 =
             Some (?h4, old_credentials, Inr (payload_of plain_tweet))"
    by (simp add: prepareTweetPayload_def plain_tweet_def truthy_def)
  have 10: "publishTweet ?env ''new'' (payload_of plain_tweet) ?h4 =
             (?h4 @ [PostTweets ''new'' (payload_of plain_tweet)], Inl forbidden)"
    by code_simp
  note main = retry_failure_is_token_expired[OF 1 2 3 4 5 6]
  from main[THEN conjunct2, THEN conjunct2, THEN conjunct2, THEN conjunct1, rule_format,
            OF 7 8 9 10]
  show ?thesis by (simp add: forbidden_def)
qed

text \<open>
  C7 fails on the code. After the refresh, the retried attempt posts with the new access
  token, but it uploads the image with the credentials object, which still holds the old
  one: \<open>publishTweetWithRefresh\<close> stores the new pair and never writes it into the
  object, unlike \<open>uploadMedia\<close>. Against a provider whose media endpoint accepts the
  old token, the requests of the retried attempt are these.
\<close>

theorem retried_upload_uses_old_token:
  "publishTweetWithRefresh lenient_media_provider old_credentials image_tweet [] =
     Some (lenient_history, old_credentials,
           \<lparr>success = True, twitterTweetId = Some ''t1'', r_publishedTweetId = None,
            message = ''Tweet published successfully after refreshing credentials'',
            error = None\<rparr>)
   \<and> drop 8 lenient_history =
       [HeadImage ''img'', MediaInit ''old'' ''10'' ''image/jpeg'', GetImage ''img'',
        MediaAppend ''old'' ''m1'', MediaFinalize ''old'' ''m1'',
        PostTweets ''new'' image_payload]"
  by code_simp

section \<open>The service entry point for one tweet\<close>

text \<open>
  C5, as the claim states it, fails: the provider accepts the post, the store rejects the
  status write, and \<open>publishTweet\<close> reports the failure \<open>Internal server error\<close>.
\<close>

theorem store_failure_is_reported:
  "publishTweetWithRefresh store_down_provider old_credentials (stored_options plain_tweet bare_doc) []
     = Some ([PostTweets ''old'' (payload_of plain_tweet)], old_credentials, published_result)
   \<and> publishTweet_service store_down_provider sample_db ''u'' plain_tweet [] =
       Some ([PostTweets ''old'' (payload_of plain_tweet),
              UpdateTweetStatus ''p'' (Some ''t'') ''x1'' (Some ''hello'')],
             failure ''Internal server error'' (only_details (Some ''store unavailable'')))
   \<and> \<not> success (failure ''Internal server error'' (only_details (Some ''store unavailable'')))"
  by code_simp

text \<open>
  C5, amended: when the provider accepts the post (\<open>publishTweetWithRefresh\<close> returns a
  success with a provider id) and the store then rejects the write of the published
  status, \<open>publishTweet\<close> reports the publish as failed: the result is unsuccessful, with
  the message \<open>Internal server error\<close> and the store's error message as details.
\<close>

theorem status_write_failure_fails_publish:
  assumes "truthy (tweetId options)" and "truthy (projectId options)" and "truthy (text options)"
    and "isAuthorized (verifyProjectAccess d uid (js_str (projectId options)))"
    and "\<not> group_disabled d (groupId options)"
    and "getTwitterCredentials d uid = Some c"
    and "tweets d (js_str (projectId options)) (js_str (tweetId options)) = Some tweetDoc"
    and "publishTweetWithRefresh env (c\<lparr>userId := Some uid\<rparr>) (stored_options options tweetDoc) h
           = Some (h1, c1, r)"
    and "success r" and "truthy (twitterTweetId r)"
    and "env h1 (UpdateTweetStatus (js_str (projectId options)) (tweetId options)
                   (js_str (twitterTweetId r)) (text options)) = Rejects m"
  shows "publishTweet_service env d uid options h =
           Some (h1 @ [UpdateTweetStatus (js_str (projectId options)) (tweetId options)
                         (js_str (twitterTweetId r)) (text options)],
                 failure ''Internal server error'' (only_details (Some m)))
       \<and> \<not> success (failure ''Internal server error'' (only_details (Some m)))
       \<and> message (failure ''Internal server error'' (only_details (Some m)))
           = ''Internal server error''"
  using assms
  by (simp add: publishTweet_service_def updateTweetStatus_def call_def failure_def new_Error_def)

text \<open>C5, at the provider that accepts the post while the store rejects the status write.\<close>

theorem status_write_failure_fails_publish_witness:
  "publishTweet_service store_down_provider sample_db ''u'' plain_tweet [] =
     Some ([PostTweets ''old'' (payload_of plain_tweet),
            UpdateTweetStatus ''p'' (Some ''t'') ''x1'' (Some ''hello'')],
           failure ''Internal server error'' (only_details (Some ''store unavailable'')))"
proof -
  have 1: "truthy (tweetId plain_tweet)" "truthy (projectId plain_tweet)" "truthy (text plain_tweet)"
    by (simp_all add: plain_tweet_def truthy_def)
  have 2: "isAuthorized (verifyProjectAccess sample_db ''u'' (js_str (projectId plain_tweet)))"
    by code_simp
  have 3: "\<not> group_disabled sample_db (groupId plain_tweet)"
    by (simp add: group_disabled_def plain_tweet_def truthy_def)
  have 4: "getTwitterCredentials sample_db ''u'' = Some (old_credentials\<lparr>userId := None\<rparr>)"
    by code_simp
  have 5: "tweets sample_db (js_str (projectId plain_tweet)) (js_str (tweetId plain_tweet))
             = Some bare_doc"
    by code_simp
  have 6: "publishTweetWithRefresh store_down_provider
             (old_credentials\<lparr>userId := None\<rparr>\<lparr>userId := Some ''u''\<rparr>)
             (stored_options plain_tweet bare_doc) []
           = Some ([PostTweets ''old'' (payload_of plain_tweet)], old_credentials, published_result)"
    by code_simp
  have 7: "success published_result" "truthy (twitterTweetId published_result)"
    by (simp_all add: published_result_def truthy_def)
  have 8: "store_down_provider [PostTweets ''old'' (payload_of plain_tweet)]
             (UpdateTweetStatus (js_str (projectId plain_tweet)) (tweetId plain_tweet)
                (js_str (twitterTweetId published_result)) (text plain_tweet))
           = Rejects ''store unavailable''"
    by code_simp
  from status_write_failure_fails_publish[OF 1 2 3 4 5 6 7 8]
  show ?thesis by (simp add: plain_tweet_def published_result_def js_str_def)
qed

text \<open>
  C6, as the claim states it, fails for threads: \<open>publishThreadTweets\<close> consults no
  group, and a thread whose tweet is tagged with a disabled group is posted.
\<close>

theorem thread_ignores_disabled_group:
  "group_disabled sample_db (groupId grouped_tweet)
   \<and> publishThreadTweets one_post_provider sample_db ''u'' ''p'' [grouped_tweet] [] =
       Some ([PostTweets ''old'' (payload_of plain_tweet),
              UpdateTweetStatus ''p'' (Some ''t'') ''x1'' (Some ''hello'')],
             thread_summary [entry_of grouped_tweet published_result] 1)
   \<and> t_success (thread_summary [entry_of grouped_tweet published_result] 1)"
  by code_simp

text \<open>
  C6, amended: \<open>publishTweet\<close>, for a tweet tagged with a group whose record exists and
  has \<open>isEnabled = false\<close>, makes no request at all, to the provider or to the store, and
  returns an unsuccessful result; when the required fields are present and the user may
  access the project, the result carries the message that the group is disabled.
\<close>

theorem disabled_group_blocks_post:
  assumes "groupId options = Some g" and "g \<noteq> []" and "tweet_groups d g = Some grp"
    and "isEnabled grp = Some False"
  shows "\<exists>r. publishTweet_service env d uid options h = Some (h, r) \<and> \<not> success r
       \<and> (truthy (tweetId options) \<and> truthy (projectId options) \<and> truthy (text options)
            \<and> isAuthorized (verifyProjectAccess d uid (js_str (projectId options))) \<longrightarrow>
          message r = ''Group is disabled. Tweet will not be published.''
          \<and> map_option details (error r) = Some (Some ''Group is disabled.''))"
proof -
  have "group_disabled d (groupId options)"
    using assms by (simp add: group_disabled_def getTweetGroup_def truthy_def js_str_def)
  then show ?thesis
    by (auto simp: publishTweet_service_def failure_def only_details_def Let_def)
qed

text \<open>C6, at the sample store and its disabled group: no request is made.\<close>

theorem disabled_group_blocks_post_witness:
  "\<exists>r. publishTweet_service rotating_provider sample_db ''u'' grouped_tweet [] = Some ([], r)
       \<and> \<not> success r \<and> message r = ''Group is disabled. Tweet will not be published.''"
proof -
  have 1: "groupId grouped_tweet = Some ''g''" and 2: "''g'' \<noteq> []"
    by (simp_all add: grouped_tweet_def plain_tweet_def)
  have 3: "tweet_groups sample_db ''g'' = Some \<lparr>isEnabled = Some False\<rparr>"
    by (simp add: sample_db_def)
  have 4: "isEnabled \<lparr>isEnabled = Some False\<rparr> = Some False" by simp
  have 5: "truthy (tweetId grouped_tweet) \<and> truthy (projectId grouped_tweet)
        \<and> truthy (text grouped_tweet)
        \<and> isAuthorized (verifyProjectAccess sample_db ''u'' (js_str (projectId grouped_tweet)))"
    by code_simp
  from disabled_group_blocks_post[OF 1 2 3 4, of rotating_provider "''u''" "[]"] 5
  show ?thesis by blast
qed

section \<open>The requests of one publish\<close>

lemma no_post_calls:
  assumes "post_calls ext = 0"
  shows "PostTweets tok p \<notin> set ext"
proof
  assume "PostTweets tok p \<in> set ext"
  then have "PostTweets tok p \<in> set (filter is_PostTweets ext)" by simp
  with assms show False by (simp add: post_calls_def)
qed

lemma prepare_extends:
  assumes "prepareTweetPayload env options token c h = Some (h', c', r)"
  shows "\<exists>ext. h' = h @ ext \<and> post_calls ext = 0
       \<and> (\<forall>p. r = Inr p \<longrightarrow>
             in_reply_to_tweet_id p = in_reply_to_tweet_id (payload_of options))"
proof (cases "truthy (imageUrl options) \<and> token \<noteq> []")
  case True
  with assms obtain x
    where up: "uploadMedia env (js_str (imageUrl options)) c 0 h = Some (h', c', x)"
    by (auto simp: prepareTweetPayload_def split: option.splits sum.splits if_splits)
  from uploadMedia_extends[OF up] obtain ext where "h' = h @ ext" "post_calls ext = 0"
    by auto
  moreover have "\<forall>p. r = Inr p \<longrightarrow>
             in_reply_to_tweet_id p = in_reply_to_tweet_id (payload_of options)"
    using assms True
    by (auto simp: prepareTweetPayload_def payload_of_def
             split: option.splits sum.splits if_splits)
  ultimately show ?thesis by blast
next
  case False
  with assms have "h' = h @ []" "r = Inr (payload_of options)"
    by (auto simp: prepareTweetPayload_def)
  then show ?thesis by (intro exI[of _ "[]"]) (simp add: post_calls_def)
qed

lemma posts_reply_to_append:
  "posts_reply_to options (e1 @ e2) = (posts_reply_to options e1 \<and> posts_reply_to options e2)"
  by (auto simp: posts_reply_to_def)

lemma posts_reply_to_Nil: "posts_reply_to options []"
  by (simp add: posts_reply_to_def)

lemma posts_reply_to_Cons:
  "posts_reply_to options (rq # ext) =
     ((case rq of
         PostTweets tok p \<Rightarrow> in_reply_to_tweet_id p = in_reply_to_tweet_id (payload_of options)
       | _ \<Rightarrow> True) \<and> posts_reply_to options ext)"
  by (simp add: posts_reply_to_def)

lemma posts_reply_to_none:
  assumes "post_calls ext = 0"
  shows "posts_reply_to options ext"
  unfolding posts_reply_to_def
proof
  fix rq assume "rq \<in> set ext"
  with no_post_calls[OF assms] show "case rq of
        PostTweets tok p \<Rightarrow> in_reply_to_tweet_id p = in_reply_to_tweet_id (payload_of options)
      | _ \<Rightarrow> True"
    by (cases rq) auto
qed

lemma try_publish_extends:
  assumes "try_publish env c options token h = Some (h', c', r)"
  shows "\<exists>ext. h' = h @ ext \<and> posts_reply_to options ext"
proof (cases "text options")
  case None
  with assms have "h' = h @ []" by (simp add: try_publish_def)
  then show ?thesis by (intro exI[of _ "[]"]) (simp add: posts_reply_to_def)
next
  case (Some t)
  with assms obtain h1 c1 r1
    where prep: "prepareTweetPayload env options token c h = Some (h1, c1, r1)"
    by (auto simp: try_publish_def split: option.splits)
  from prepare_extends[OF prep] obtain e1 where e1: "h1 = h @ e1" "post_calls e1 = 0"
      "\<forall>p. r1 = Inr p \<longrightarrow> in_reply_to_tweet_id p = in_reply_to_tweet_id (payload_of options)"
    by blast
  show ?thesis
  proof (cases r1)
    case (Inl e)
    with assms Some prep have "h' = h1" by (simp add: try_publish_def)
    with e1 posts_reply_to_none[OF e1(2)] show ?thesis by blast
  next
    case (Inr p)
    obtain h2 r2 where post: "publishTweet env token p h1 = (h2, r2)"
      by (cases "publishTweet env token p h1") auto
    with assms Some prep Inr have "h' = h2"
      by (auto simp: try_publish_def split: sum.splits)
    with publishTweet_history[OF post] e1(1) have "h' = h @ (e1 @ [PostTweets token p])"
      by simp
    moreover have "posts_reply_to options (e1 @ [PostTweets token p])"
      using posts_reply_to_none[OF e1(2)] e1(3) Inr
      by (simp add: posts_reply_to_append posts_reply_to_Cons posts_reply_to_Nil)
    ultimately show ?thesis by blast
  qed
qed

lemma try_refresh_and_publish_extends:
  assumes "try_refresh_and_publish env c options h = Some (h', c', r)"
  shows "\<exists>ext. h' = h @ ext \<and> posts_reply_to options ext"
proof -
  obtain h1 r1 where rf: "refreshTwitterAccessToken env c h = (h1, r1)"
    by (cases "refreshTwitterAccessToken env c h") auto
  let ?rq = "OAuthToken (clientId c) (clientSecret c) (refreshToken (oauthCredentials c))"
  have h1: "h1 = h @ [?rq]" using refreshTwitterAccessToken_history[OF rf] .
  have one: "posts_reply_to options [?rq]" by (simp add: posts_reply_to_def)
  show ?thesis
  proof (cases "\<exists>a n x h2. r1 = Inr (a, n, x) \<and> truthy (userId c)
           \<and> updateTwitterCredentials env (js_str (userId c)) a n h1 = (h2, None)")
    case True
    then obtain a n x h2 where t: "r1 = Inr (a, n, x)" "truthy (userId c)"
        and upd: "updateTwitterCredentials env (js_str (userId c)) a n h1 = (h2, None)"
      by blast
    let ?up = "UpdateCredentials (js_str (userId c)) a n"
    have h2: "h2 = h @ [?rq, ?up]"
      using updateTwitterCredentials_history[OF upd] h1 by simp
    have two: "posts_reply_to options [?rq, ?up]" by (simp add: posts_reply_to_def)
    from assms rf t upd obtain h3 c3 r3
      where prep: "prepareTweetPayload env options a c h2 = Some (h3, c3, r3)"
      by (auto simp: try_refresh_and_publish_def split: option.splits)
    from prepare_extends[OF prep] obtain e3 where e3: "h3 = h2 @ e3" "post_calls e3 = 0"
        "\<forall>p. r3 = Inr p \<longrightarrow> in_reply_to_tweet_id p = in_reply_to_tweet_id (payload_of options)"
      by blast
    show ?thesis
    proof (cases r3)
      case (Inl e)
      with assms rf t upd prep have "h' = h3" by (simp add: try_refresh_and_publish_def)
      then have "h' = h @ ([?rq, ?up] @ e3)" using e3(1) h2 by simp
      moreover have "posts_reply_to options ([?rq, ?up] @ e3)"
        using two posts_reply_to_none[OF e3(2)]
        by (simp add: posts_reply_to_append posts_reply_to_Cons posts_reply_to_Nil)
      ultimately show ?thesis by blast
    next
      case (Inr p)
      obtain h4 r4 where post: "publishTweet env a p h3 = (h4, r4)"
        by (cases "publishTweet env a p h3") auto
      with assms rf t upd prep Inr have "h' = h4"
        by (auto simp: try_refresh_and_publish_def split: sum.splits)
      with publishTweet_history[OF post] e3(1) h2
      have "h' = h @ ([?rq, ?up] @ e3 @ [PostTweets a p])" by simp
      moreover have "posts_reply_to options [PostTweets a p]"
        using e3(3) Inr by (simp add: posts_reply_to_def)
      then have "posts_reply_to options ([?rq, ?up] @ e3 @ [PostTweets a p])"
        using two posts_reply_to_none[OF e3(2)]
        by (simp add: posts_reply_to_append posts_reply_to_Cons posts_reply_to_Nil)
      ultimately show ?thesis by blast
    qed
  next
    case False
    have "h' = h1 \<or> (\<exists>u a n. h' = h1 @ [UpdateCredentials u a n])"
      using assms rf False
      by (auto simp: try_refresh_and_publish_def
               split: sum.splits if_splits prod.splits option.splits
               dest!: updateTwitterCredentials_history)
    then show ?thesis
    proof
      assume "h' = h1"
      with h1 one show ?thesis by blast
    next
      assume "\<exists>u a n. h' = h1 @ [UpdateCredentials u a n]"
      then obtain u a n where "h' = h @ [?rq, UpdateCredentials u a n]" using h1 by auto
      moreover have "posts_reply_to options [?rq, UpdateCredentials u a n]"
        by (simp add: posts_reply_to_def)
      ultimately show ?thesis by blast
    qed
  qed
qed

lemma publishTweetWithRefresh_extends:
  assumes "publishTweetWithRefresh env c options h = Some (h', c', r)"
  shows "\<exists>ext. h' = h @ ext \<and> posts_reply_to options ext"
proof -
  from assms obtain h1 c1 r1
    where first: "try_publish env c options (accessToken (oauthCredentials c)) h = Some (h1, c1, r1)"
    by (auto simp: publishTweetWithRefresh_def split: option.splits)
  from try_publish_extends[OF first] obtain e1 where e1: "h1 = h @ e1" "posts_reply_to options e1"
    by blast
  show ?thesis
  proof (cases "\<exists>e. r1 = Inl e \<and> isAuthError e \<and> truthy (refreshToken (oauthCredentials c1))")
    case True
    with assms first obtain r2
      where retry: "try_refresh_and_publish env c1 options h1 = Some (h', c', r2)"
      by (auto simp: publishTweetWithRefresh_def split: option.splits sum.splits)
    from try_refresh_and_publish_extends[OF retry] obtain e2
      where "h' = h1 @ e2" "posts_reply_to options e2"
      by blast
    with e1 have "h' = h @ (e1 @ e2)" "posts_reply_to options (e1 @ e2)"
      by (simp_all add: posts_reply_to_append)
    then show ?thesis by blast
  next
    case False
    with assms first have "h' = h1"
      by (auto simp: publishTweetWithRefresh_def split: sum.splits if_splits)
    with e1 show ?thesis by blast
  qed
qed

section \<open>The thread loop\<close>

lemma thread_loop_append:
  "thread_loop env pid (xs @ ys) st =
     (case thread_loop env pid xs st of
        None \<Rightarrow> None
      | Some (st1, go) \<Rightarrow> if go then thread_loop env pid ys st1 else Some (st1, False))"
  by (induction xs arbitrary: st) (auto split: option.splits)

lemma published_step:
  assumes "status t = Some TweetStatus_PUBLISHED"
  shows "thread_step env pid t st = Some (st\<lparr>previousTweetId := publishedTweetId t\<rparr>, True)"
  using assms by (simp add: thread_step_def)

lemma published_prefix:
  assumes "\<forall>x \<in> set pre. status x = Some TweetStatus_PUBLISHED" and "pre \<noteq> []"
  shows "thread_loop env pid pre st = Some (st\<lparr>previousTweetId := publishedTweetId (last pre)\<rparr>, True)"
  using assms
proof (induction pre arbitrary: st)
  case Nil
  then show ?case by simp
next
  case (Cons x xs)
  then have x: "status x = Some TweetStatus_PUBLISHED" by simp
  show ?case
  proof (cases "xs = []")
    case True
    with x show ?thesis by (simp add: published_step)
  next
    case False
    with Cons have "thread_loop env pid xs (st\<lparr>previousTweetId := publishedTweetId x\<rparr>) =
        Some (st\<lparr>previousTweetId := publishedTweetId x\<rparr>\<lparr>previousTweetId := publishedTweetId (last xs)\<rparr>, True)"
      by simp
    with x False show ?thesis by (simp add: published_step)
  qed
qed

text \<open>An iteration for a tweet that is not yet published goes on only after a publish and a status write that both succeed.\<close>

lemma step_continues:
  assumes "thread_step env pid t st = Some (st', True)" and "unpublished t"
  shows "\<exists>h1 c1 r.
           publishTweetWithRefresh env (l_credentials st)
             (publishOptions pid (previousTweetId st) t) (l_history st) = Some (h1, c1, r)
         \<and> success r \<and> truthy (twitterTweetId r)
         \<and> st' = \<lparr>l_history = h1 @ [UpdateTweetStatus pid (tweetId t)
                                        (js_str (twitterTweetId r)) (text t)],
                   l_credentials = c1, previousTweetId = twitterTweetId r,
                   l_results = l_results st @ [entry_of t r]\<rparr>"
  using assms
  by (auto simp: thread_step_def unpublished_def entry_of_def Let_def
           split: option.splits prod.splits if_splits
           dest!: updateTweetStatus_history)

lemma step_fails:
  assumes "unpublished t"
    and "publishTweetWithRefresh env (l_credentials st)
           (publishOptions pid (previousTweetId st) t) (l_history st) = Some (h1, c1, r)"
    and "\<not> success r"
  shows "thread_step env pid t st =
           Some (\<lparr>l_history = h1, l_credentials = c1, previousTweetId = previousTweetId st,
                  l_results = l_results st @ [entry_of t r]\<rparr>, False)"
  using assms by (simp add: thread_step_def unpublished_def entry_of_def)

lemma prefix_of_run:
  assumes "thread_loop env pid (xs @ ys) st = Some (st1, True)"
  shows "\<exists>sx. thread_loop env pid xs st = Some (sx, True) \<and> thread_loop env pid ys sx = Some (st1, True)"
  using assms by (auto simp: thread_loop_append split: option.splits if_splits)

lemma step_extends:
  assumes "thread_step env pid t st = Some (st', go)" and "unpublished t"
  shows "\<exists>ext. l_history st' = l_history st @ ext
       \<and> posts_reply_to (publishOptions pid (previousTweetId st) t) ext"
proof -
  from assms obtain h1 c1 r
    where pub: "publishTweetWithRefresh env (l_credentials st)
                  (publishOptions pid (previousTweetId st) t) (l_history st) = Some (h1, c1, r)"
    by (auto simp: thread_step_def unpublished_def split: option.splits)
  from publishTweetWithRefresh_extends[OF pub] obtain e1
    where e1: "h1 = l_history st @ e1"
      "posts_reply_to (publishOptions pid (previousTweetId st) t) e1"
    by blast
  have "l_history st' = h1
      \<or> l_history st' = h1 @ [UpdateTweetStatus pid (tweetId t) (js_str (twitterTweetId r)) (text t)]"
    using assms pub
    by (auto simp: thread_step_def unpublished_def Let_def
             split: prod.splits option.splits if_splits dest!: updateTweetStatus_history)
  then show ?thesis
  proof
    assume "l_history st' = h1"
    with e1 show ?thesis by blast
  next
    let ?w = "UpdateTweetStatus pid (tweetId t) (js_str (twitterTweetId r)) (text t)"
    assume "l_history st' = h1 @ [?w]"
    with e1 have "l_history st' = l_history st @ (e1 @ [?w])"
      "posts_reply_to (publishOptions pid (previousTweetId st) t) (e1 @ [?w])"
      by (simp_all add: posts_reply_to_append posts_reply_to_Cons posts_reply_to_Nil)
    then show ?thesis by blast
  qed
qed

lemma reply_target_set:
  assumes "i \<noteq> []"
  shows "replyToTweetId (publishOptions pid (Some i) t) = Some i
       \<and> in_reply_to_tweet_id (payload_of (publishOptions pid (Some i) t)) = Some i"
  using assms by (simp add: publishOptions_def payload_of_def truthy_def)

lemma length_sortedTweets: "length (sortedTweets ts) = length ts"
  by (simp add: sortedTweets_def)

lemma publishThreadTweets_loop:
  assumes "isAuthorized (verifyProjectAccess d uid pid)"
    and "getTwitterCredentials d uid = Some c"
    and "sortedTweets threadTweets = pre @ t # post"
  shows "publishThreadTweets env d uid pid threadTweets h =
     (case thread_loop env pid (pre @ t # post) (initial_state h c) of
        None \<Rightarrow> None
      | Some (st, go) \<Rightarrow>
          Some (l_history st, thread_summary (l_results st) (length threadTweets)))"
proof -
  have ne: "length threadTweets \<noteq> 0"
    using assms(3) length_sortedTweets[of threadTweets] by auto
  show ?thesis
    unfolding publishThreadTweets_def Let_def initial_state_def length_sortedTweets
    using assms(1,2) ne by (simp add: assms(3))
qed

text \<open>
  C4: when the posts before the sorted position of \<open>t\<close> all have the status published
  and the last of them has a stored provider id, the loop passes them without a request
  and without a result entry; the call goes on from \<open>t\<close> as if it had started there with
  that id as the previous one, and every post call of the iteration for \<open>t\<close> carries that
  id as its reply target.
\<close>

theorem published_prefix_is_skipped:
  assumes "isAuthorized (verifyProjectAccess d uid pid)"
    and "getTwitterCredentials d uid = Some c"
    and "sortedTweets threadTweets = pre @ t # post"
    and "pre \<noteq> []" and "\<forall>x \<in> set pre. status x = Some TweetStatus_PUBLISHED"
    and "unpublished t"
    and "publishedTweetId (last pre) = Some i" and "i \<noteq> []"
  shows "thread_loop env pid pre (initial_state h c) =
           Some ((initial_state h c)\<lparr>previousTweetId := Some i\<rparr>, True)
       \<and> publishThreadTweets env d uid pid threadTweets h =
           (case thread_loop env pid (t # post) ((initial_state h c)\<lparr>previousTweetId := Some i\<rparr>) of
              None \<Rightarrow> None
            | Some (st, go) \<Rightarrow>
                Some (l_history st, thread_summary (l_results st) (length threadTweets)))
       \<and> replyToTweetId (publishOptions pid (Some i) t) = Some i
       \<and> (\<forall>st' go. thread_step env pid t ((initial_state h c)\<lparr>previousTweetId := Some i\<rparr>)
                       = Some (st', go) \<longrightarrow>
            (\<exists>ext. l_history st' = h @ ext
               \<and> (\<forall>tok p. PostTweets tok p \<in> set ext \<longrightarrow> in_reply_to_tweet_id p = Some i)))"
proof -
  let ?st = "(initial_state h c)\<lparr>previousTweetId := Some i\<rparr>"
  have skip: "thread_loop env pid pre (initial_state h c) = Some (?st, True)"
    using published_prefix[OF assms(5,4), of env pid "initial_state h c"] assms(7) by simp
  have whole: "publishThreadTweets env d uid pid threadTweets h =
           (case thread_loop env pid (t # post) ?st of
              None \<Rightarrow> None
            | Some (st, go) \<Rightarrow>
                Some (l_history st, thread_summary (l_results st) (length threadTweets)))"
    using publishThreadTweets_loop[OF assms(1,2,3), of env h] skip
    by (simp add: thread_loop_append[of env pid pre "t # post"])
  have posts: "\<forall>st' go. thread_step env pid t ?st = Some (st', go) \<longrightarrow>
            (\<exists>ext. l_history st' = h @ ext
               \<and> (\<forall>tok p. PostTweets tok p \<in> set ext \<longrightarrow> in_reply_to_tweet_id p = Some i))"
  proof (intro allI impI)
    fix st' go assume "thread_step env pid t ?st = Some (st', go)"
    from step_extends[OF this assms(6)] obtain ext
      where ext: "l_history st' = h @ ext" "posts_reply_to (publishOptions pid (Some i) t) ext"
      by (auto simp: initial_state_def)
    have "\<forall>tok p. PostTweets tok p \<in> set ext \<longrightarrow> in_reply_to_tweet_id p = Some i"
    proof (intro allI impI)
      fix tok p assume "PostTweets tok p \<in> set ext"
      with ext(2) have "in_reply_to_tweet_id p
          = in_reply_to_tweet_id (payload_of (publishOptions pid (Some i) t))"
        by (auto simp: posts_reply_to_def)
      with reply_target_set[OF assms(8)] show "in_reply_to_tweet_id p = Some i" by simp
    qed
    with ext(1) show "\<exists>ext. l_history st' = h @ ext
               \<and> (\<forall>tok p. PostTweets tok p \<in> set ext \<longrightarrow> in_reply_to_tweet_id p = Some i)"
      by blast
  qed
  from skip whole reply_target_set[OF assms(8)] posts show ?thesis by blast
qed

text \<open>C4, at a thread of a published tweet and a second one: the only post call replies to the stored provider id.\<close>

theorem published_prefix_is_skipped_witness:
  "publishThreadTweets one_post_provider sample_db ''u'' ''p'' [second_tweet, published_tweet] [] =
     Some ([PostTweets ''old'' (reply_payload ''x0''),
            UpdateTweetStatus ''p'' (Some ''t1'') ''x1'' (Some ''hello'')],
           thread_summary [entry_of second_tweet published_result] 2)"
proof -
  have 1: "isAuthorized (verifyProjectAccess sample_db ''u'' ''p'')" by code_simp
  have 2: "getTwitterCredentials sample_db ''u'' = Some stored_credentials" by code_simp
  have 3: "sortedTweets [second_tweet, published_tweet] = [published_tweet] @ second_tweet # []"
    by code_simp
  have 4: "[published_tweet] \<noteq> []" by simp
  have 5: "\<forall>x \<in> set [published_tweet]. status x = Some TweetStatus_PUBLISHED"
    by (simp add: published_tweet_def)
  have 6: "unpublished second_tweet" by code_simp
  have 7: "publishedTweetId (last [published_tweet]) = Some ''x0''"
    by (simp add: published_tweet_def)
  have 8: "''x0'' \<noteq> []" by simp
  have run: "thread_loop one_post_provider ''p'' (second_tweet # [])
               ((initial_state [] stored_credentials)\<lparr>previousTweetId := Some ''x0''\<rparr>) =
             Some (\<lparr>l_history = [PostTweets ''old'' (reply_payload ''x0''),
                       UpdateTweetStatus ''p'' (Some ''t1'') ''x1'' (Some ''hello'')],
                     l_credentials = stored_credentials, previousTweetId = Some ''x1'',
                     l_results = [entry_of second_tweet published_result]\<rparr>, True)"
    by code_simp
  from published_prefix_is_skipped[OF 1 2 3 4 5 6 7 8, of one_post_provider "[]"]
  have "publishThreadTweets one_post_provider sample_db ''u'' ''p'' [second_tweet, published_tweet] [] =
           (case thread_loop one_post_provider ''p'' (second_tweet # [])
                   ((initial_state [] stored_credentials)\<lparr>previousTweetId := Some ''x0''\<rparr>) of
              None \<Rightarrow> None
            | Some (st, go) \<Rightarrow>
                Some (l_history st,
                      thread_summary (l_results st) (length [second_tweet, published_tweet])))"
    by blast
  with run show ?thesis by (simp add: numeral_2_eq_2)
qed

text \<open>What a run of the loop over a prefix leaves behind when it does not break.\<close>

lemma prefix_run:
  assumes "thread_loop env pid pre st0 = Some (st1, True)"
  shows "\<exists>new ext. l_results st1 = l_results st0 @ new \<and> l_history st1 = l_history st0 @ ext
       \<and> list_all e_success new
       \<and> map e_tweetId new = map tweetId (filter unpublished pre)
       \<and> (\<forall>x \<in> set pre. unpublished x \<longrightarrow>
            (\<exists>i. i \<noteq> [] \<and> UpdateTweetStatus pid (tweetId x) i (text x) \<in> set ext
               \<and> (\<exists>e \<in> set new. e_tweetId e = tweetId x \<and> e_publishedTweetId e = Some i
                     \<and> e_success e)))"
  using assms
proof (induction pre arbitrary: st0)
  case Nil
  then have "st1 = st0" by simp
  then show ?case by (intro exI[of _ "[]"]) simp
next
  case (Cons x xs)
  from Cons.prems obtain sx where step: "thread_step env pid x st0 = Some (sx, True)"
      and rest: "thread_loop env pid xs sx = Some (st1, True)"
    by (auto split: option.splits if_splits)
  from Cons.IH[OF rest] obtain new' ext'
    where IH: "l_results st1 = l_results sx @ new'" "l_history st1 = l_history sx @ ext'"
      "list_all e_success new'" "map e_tweetId new' = map tweetId (filter unpublished xs)"
      "\<forall>y \<in> set xs. unpublished y \<longrightarrow>
            (\<exists>i. i \<noteq> [] \<and> UpdateTweetStatus pid (tweetId y) i (text y) \<in> set ext'
               \<and> (\<exists>e \<in> set new'. e_tweetId e = tweetId y \<and> e_publishedTweetId e = Some i
                     \<and> e_success e))"
    by blast
  show ?case
  proof (cases "unpublished x")
    case False
    then have "status x = Some TweetStatus_PUBLISHED" by (simp add: unpublished_def)
    from published_step[OF this, of env pid st0] step
    have "l_results sx = l_results st0" "l_history sx = l_history st0" by auto
    with IH False show ?thesis
      by (intro exI[of _ new'] exI[of _ ext']) simp
  next
    case True
    from step_continues[OF step True] obtain h1 c1 r
      where pub: "publishTweetWithRefresh env (l_credentials st0)
                    (publishOptions pid (previousTweetId st0) x) (l_history st0) = Some (h1, c1, r)"
        and r: "success r" "truthy (twitterTweetId r)"
        and sx: "sx = \<lparr>l_history = h1 @ [UpdateTweetStatus pid (tweetId x)
                                           (js_str (twitterTweetId r)) (text x)],
                       l_credentials = c1, previousTweetId = twitterTweetId r,
                       l_results = l_results st0 @ [entry_of x r]\<rparr>"
      by blast
    from publishTweetWithRefresh_extends[OF pub] obtain e1 where e1: "h1 = l_history st0 @ e1"
      by blast
    from r(2) obtain i where i: "twitterTweetId r = Some i" "i \<noteq> []"
      by (auto simp: truthy_def split: option.splits)
    let ?w = "UpdateTweetStatus pid (tweetId x) i (text x)"
    let ?new = "entry_of x r # new'"
    let ?ext = "e1 @ ?w # ext'"
    have res: "l_results st1 = l_results st0 @ ?new" using IH(1) sx by simp
    have hist: "l_history st1 = l_history st0 @ ?ext"
      using IH(2) sx e1 i by (simp add: js_str_def)
    have all: "list_all e_success ?new" using IH(3) r(1) by (simp add: entry_of_def)
    have ids: "map e_tweetId ?new = map tweetId (filter unpublished (x # xs))"
      using IH(4) True by (simp add: entry_of_def)
    have each: "\<forall>y \<in> set (x # xs). unpublished y \<longrightarrow>
            (\<exists>j. j \<noteq> [] \<and> UpdateTweetStatus pid (tweetId y) j (text y) \<in> set ?ext
               \<and> (\<exists>e \<in> set ?new. e_tweetId e = tweetId y \<and> e_publishedTweetId e = Some j
                     \<and> e_success e))"
    proof (intro ballI impI)
      fix y assume y: "y \<in> set (x # xs)" and "unpublished y"
      show "\<exists>j. j \<noteq> [] \<and> UpdateTweetStatus pid (tweetId y) j (text y) \<in> set ?ext
               \<and> (\<exists>e \<in> set ?new. e_tweetId e = tweetId y \<and> e_publishedTweetId e = Some j
                     \<and> e_success e)"
      proof (cases "y = x")
        case True
        have "entry_of x r \<in> set ?new" by simp
        moreover have "e_tweetId (entry_of x r) = tweetId x"
          "e_publishedTweetId (entry_of x r) = Some i" "e_success (entry_of x r)"
          using i r(1) by (simp_all add: entry_of_def)
        ultimately show ?thesis using True i(2) by (intro exI[of _ i]) auto
      next
        case False
        with y have "y \<in> set xs" by simp
        with IH(5) \<open>unpublished y\<close> obtain j e where "j \<noteq> []"
          "UpdateTweetStatus pid (tweetId y) j (text y) \<in> set ext'" "e \<in> set new'"
          "e_tweetId e = tweetId y" "e_publishedTweetId e = Some j" "e_success e"
          by blast
        then show ?thesis by (intro exI[of _ j]) auto
      qed
    qed
    from res hist all ids each show ?thesis by blast
  qed
qed

lemma chained:
  assumes "thread_loop env pid (xs @ [x]) st0 = Some (sy, True)" and "unpublished x"
  shows "\<exists>sx hx cx rx. thread_loop env pid xs st0 = Some (sx, True)
       \<and> publishTweetWithRefresh env (l_credentials sx)
            (publishOptions pid (previousTweetId sx) x) (l_history sx) = Some (hx, cx, rx)
       \<and> success rx \<and> truthy (twitterTweetId rx) \<and> previousTweetId sy = twitterTweetId rx"
proof -
  from prefix_of_run[OF assms(1)] obtain sx where sx: "thread_loop env pid xs st0 = Some (sx, True)"
      and "thread_loop env pid [x] sx = Some (sy, True)"
    by blast
  then have "thread_step env pid x sx = Some (sy, True)"
    by (auto split: option.splits if_splits)
  from step_continues[OF this assms(2)] sx show ?thesis by auto
qed

lemma reply_target_previous:
  assumes "truthy previous"
  shows "replyToTweetId (publishOptions pid previous y) = previous"
  using assms by (simp add: publishOptions_def)

lemma split_before_last:
  assumes "pre @ [t] = xs @ x # y # ys"
  shows "\<exists>zs. pre = (xs @ [x]) @ zs"
proof -
  have "pre = butlast (pre @ [t])" by simp
  also have "\<dots> = butlast (xs @ x # y # ys)" using assms by simp
  also have "\<dots> = (xs @ [x]) @ butlast (y # ys)" by (simp add: butlast_append)
  finally show ?thesis by blast
qed

text \<open>
  C3, as the claim states it, fails: in a thread whose first post is already published,
  the second is published by the call and the third fails; the result counts one
  published post, not two.
\<close>

theorem resumed_thread_counts_one:
  "sortedTweets [third_tweet, published_tweet, second_tweet] =
     [published_tweet, second_tweet, third_tweet]
   \<and> publishThreadTweets one_post_provider sample_db ''u'' ''p''
         [third_tweet, published_tweet, second_tweet] [] =
       Some ([PostTweets ''old'' (reply_payload ''x0''),
              UpdateTweetStatus ''p'' (Some ''t1'') ''x1'' (Some ''hello''),
              PostTweets ''old'' (reply_payload ''x1'')],
             thread_summary [entry_of second_tweet published_result,
                             entry_of third_tweet failed_result] 3)
   \<and> publishedCount [entry_of second_tweet published_result,
                      entry_of third_tweet failed_result] = 1
   \<and> t_message (thread_summary [entry_of second_tweet published_result,
                                 entry_of third_tweet failed_result] 3) =
       ''Thread publishing stopped after 1/3 tweets to maintain thread integrity''"
  by code_simp

lemma stopped_summary:
  assumes "list_all e_success new" and "\<not> e_success e" and "length new < cnt"
  shows "\<not> t_success (thread_summary (new @ [e]) cnt)
       \<and> results (thread_summary (new @ [e]) cnt) = new @ [e]
       \<and> publishedCount (new @ [e]) = length new
       \<and> t_message (thread_summary (new @ [e]) cnt) =
           (if new = [] then ''Failed to publish thread''
            else ''Thread publishing stopped after '' @ toString (length new) @ ''/''
                   @ toString cnt @ '' tweets to maintain thread integrity'')"
proof -
  have "filter e_success new = new" using assms(1) by (simp add: list_all_iff)
  then have count: "publishedCount (new @ [e]) = length new"
    using assms(2) by (simp add: publishedCount_def)
  then show ?thesis
    using assms(2,3) by (simp add: thread_summary_def Let_def)
qed

lemma posts_carry_previous:
  assumes "truthy previous"
    and "publishTweetWithRefresh env c (publishOptions pid previous y) h = Some (h', c', r)"
  shows "\<exists>ext. h' = h @ ext
       \<and> (\<forall>tok p. PostTweets tok p \<in> set ext \<longrightarrow> in_reply_to_tweet_id p = previous)"
proof -
  from publishTweetWithRefresh_extends[OF assms(2)] obtain ext
    where ext: "h' = h @ ext" "posts_reply_to (publishOptions pid previous y) ext"
    by blast
  have target: "in_reply_to_tweet_id (payload_of (publishOptions pid previous y)) = previous"
    using assms(1) by (simp add: publishOptions_def payload_of_def)
  have "\<forall>tok p. PostTweets tok p \<in> set ext \<longrightarrow> in_reply_to_tweet_id p = previous"
  proof (intro allI impI)
    fix tok p assume "PostTweets tok p \<in> set ext"
    with ext(2) have "in_reply_to_tweet_id p
        = in_reply_to_tweet_id (payload_of (publishOptions pid previous y))"
      by (auto simp: posts_reply_to_def)
    with target show "in_reply_to_tweet_id p = previous" by simp
  qed
  with ext(1) show ?thesis by blast
qed

text \<open>
  C3, amended: let the post \<open>t\<close> at sorted position k be not yet published, let the loop
  reach it without a break, and let its publish fail. Then the call returns with the
  history as the failed publish left it, so no later post is attempted; the result is
  unsuccessful and its entries are those of the earlier posts published by this call,
  all successful, and the failed entry of \<open>t\<close>; the number of published posts it reports
  is the number of earlier posts that were not already published before the call (k - 1
  when none was). Each of those was persisted with the provider id of its entry, and
  the post after it was given that provider id as its reply target.
\<close>

theorem thread_stops_at_first_failure:
  assumes "isAuthorized (verifyProjectAccess d uid pid)"
    and "getTwitterCredentials d uid = Some c"
    and "sortedTweets threadTweets = pre @ t # post"
    and "thread_loop env pid pre (initial_state h c) = Some (st1, True)"
    and "unpublished t"
    and "publishTweetWithRefresh env (l_credentials st1)
           (publishOptions pid (previousTweetId st1) t) (l_history st1) = Some (h2, c2, r)"
    and "\<not> success r"
  shows "\<exists>res. publishThreadTweets env d uid pid threadTweets h = Some (h2, res)
       \<and> \<not> t_success res
       \<and> results res = l_results st1 @ [entry_of t r]
       \<and> list_all e_success (l_results st1)
       \<and> map e_tweetId (l_results st1) = map tweetId (filter unpublished pre)
       \<and> publishedCount (results res) = length (filter unpublished pre)
       \<and> t_message res =
           (if filter unpublished pre = [] then ''Failed to publish thread''
            else ''Thread publishing stopped after ''
                   @ toString (length (filter unpublished pre)) @ ''/''
                   @ toString (length threadTweets) @ '' tweets to maintain thread integrity'')
       \<and> (\<forall>x \<in> set pre. unpublished x \<longrightarrow>
            (\<exists>i. i \<noteq> [] \<and> UpdateTweetStatus pid (tweetId x) i (text x) \<in> set h2
               \<and> (\<exists>e \<in> set (results res). e_tweetId e = tweetId x
                     \<and> e_publishedTweetId e = Some i \<and> e_success e)))
       \<and> (\<forall>xs x y ys. pre @ [t] = xs @ x # y # ys \<longrightarrow> unpublished x \<longrightarrow>
            (\<exists>sx hx cx rx sy.
               thread_loop env pid xs (initial_state h c) = Some (sx, True)
               \<and> publishTweetWithRefresh env (l_credentials sx)
                    (publishOptions pid (previousTweetId sx) x) (l_history sx) = Some (hx, cx, rx)
               \<and> truthy (twitterTweetId rx)
               \<and> thread_loop env pid (xs @ [x]) (initial_state h c) = Some (sy, True)
               \<and> replyToTweetId (publishOptions pid (previousTweetId sy) y) = twitterTweetId rx
               \<and> (\<forall>h' c' r'.
                     publishTweetWithRefresh env (l_credentials sy)
                       (publishOptions pid (previousTweetId sy) y) (l_history sy)
                       = Some (h', c', r') \<longrightarrow>
                     (\<exists>ext. h' = l_history sy @ ext
                        \<and> (\<forall>tok p. PostTweets tok p \<in> set ext \<longrightarrow>
                              in_reply_to_tweet_id p = twitterTweetId rx)))))"
proof -
  let ?st0 = "initial_state h c"
  let ?e = "entry_of t r"
  let ?st2 = "\<lparr>l_history = h2, l_credentials = c2, previousTweetId = previousTweetId st1,
               l_results = l_results st1 @ [?e]\<rparr>"
  let ?res = "thread_summary (l_results st1 @ [?e]) (length threadTweets)"
  have stop: "thread_loop env pid (pre @ t # post) ?st0 = Some (?st2, False)"
    using assms(4) step_fails[OF assms(5,6,7)]
    by (simp add: thread_loop_append[of env pid pre "t # post"])
  have call: "publishThreadTweets env d uid pid threadTweets h = Some (h2, ?res)"
    using publishThreadTweets_loop[OF assms(1,2,3), of env h] stop by simp
  from prefix_run[OF assms(4)] obtain new ext
    where new: "l_results st1 = new" "l_history st1 = h @ ext" "list_all e_success new"
      "map e_tweetId new = map tweetId (filter unpublished pre)"
      and each: "\<forall>x \<in> set pre. unpublished x \<longrightarrow>
            (\<exists>i. i \<noteq> [] \<and> UpdateTweetStatus pid (tweetId x) i (text x) \<in> set ext
               \<and> (\<exists>e \<in> set new. e_tweetId e = tweetId x \<and> e_publishedTweetId e = Some i
                     \<and> e_success e))"
    by (auto simp: initial_state_def)
  have len: "length new = length (filter unpublished pre)"
    using new(4) by (metis length_map)
  have le: "length (filter unpublished pre) \<le> length pre" by (rule length_filter_le)
  have "length threadTweets = length pre + 1 + length post"
    using assms(3) length_sortedTweets[of threadTweets] by simp
  with le len have less: "length new < length threadTweets" by linarith
  have fail: "\<not> e_success ?e" using assms(7) by (simp add: entry_of_def)
  note summary = stopped_summary[OF new(3) fail less]
  have empty: "(new = []) = (filter unpublished pre = [])"
    using len by (metis length_0_conv)
  from publishTweetWithRefresh_extends[OF assms(6)] new(2) obtain e2 where h2: "h2 = (h @ ext) @ e2"
    by auto
  have persisted: "\<forall>x \<in> set pre. unpublished x \<longrightarrow>
            (\<exists>i. i \<noteq> [] \<and> UpdateTweetStatus pid (tweetId x) i (text x) \<in> set h2
               \<and> (\<exists>e \<in> set (results ?res). e_tweetId e = tweetId x
                     \<and> e_publishedTweetId e = Some i \<and> e_success e))"
  proof (intro ballI impI)
    fix x assume "x \<in> set pre" "unpublished x"
    with each obtain i e where "i \<noteq> []" "UpdateTweetStatus pid (tweetId x) i (text x) \<in> set ext"
      "e \<in> set new" "e_tweetId e = tweetId x" "e_publishedTweetId e = Some i" "e_success e"
      by blast
    then show "\<exists>i. i \<noteq> [] \<and> UpdateTweetStatus pid (tweetId x) i (text x) \<in> set h2
               \<and> (\<exists>e \<in> set (results ?res). e_tweetId e = tweetId x
                     \<and> e_publishedTweetId e = Some i \<and> e_success e)"
      using h2 summary new(1) by (intro exI[of _ i]) auto
  qed
  have chain: "\<forall>xs x y ys. pre @ [t] = xs @ x # y # ys \<longrightarrow> unpublished x \<longrightarrow>
            (\<exists>sx hx cx rx sy.
               thread_loop env pid xs ?st0 = Some (sx, True)
               \<and> publishTweetWithRefresh env (l_credentials sx)
                    (publishOptions pid (previousTweetId sx) x) (l_history sx) = Some (hx, cx, rx)
               \<and> truthy (twitterTweetId rx)
               \<and> thread_loop env pid (xs @ [x]) ?st0 = Some (sy, True)
               \<and> replyToTweetId (publishOptions pid (previousTweetId sy) y) = twitterTweetId rx
               \<and> (\<forall>h' c' r'.
                     publishTweetWithRefresh env (l_credentials sy)
                       (publishOptions pid (previousTweetId sy) y) (l_history sy)
                       = Some (h', c', r') \<longrightarrow>
                     (\<exists>ext. h' = l_history sy @ ext
                        \<and> (\<forall>tok p. PostTweets tok p \<in> set ext \<longrightarrow>
                              in_reply_to_tweet_id p = twitterTweetId rx))))"
  proof (intro allI impI)
    fix xs x y ys assume eq: "pre @ [t] = xs @ x # y # ys" and x: "unpublished x"
    from split_before_last[OF eq] obtain zs where "pre = (xs @ [x]) @ zs" by blast
    with assms(4) have "thread_loop env pid ((xs @ [x]) @ zs) ?st0 = Some (st1, True)" by simp
    from prefix_of_run[OF this] obtain sy
      where sy: "thread_loop env pid (xs @ [x]) ?st0 = Some (sy, True)"
      by blast
    from chained[OF sy x] obtain sx hx cx rx
      where run: "thread_loop env pid xs ?st0 = Some (sx, True)"
        "publishTweetWithRefresh env (l_credentials sx)
           (publishOptions pid (previousTweetId sx) x) (l_history sx) = Some (hx, cx, rx)"
        "truthy (twitterTweetId rx)" and prev: "previousTweetId sy = twitterTweetId rx"
      by blast
    have target: "replyToTweetId (publishOptions pid (previousTweetId sy) y) = twitterTweetId rx"
      using reply_target_previous[of "previousTweetId sy" pid y] run(3) prev by simp
    have posts: "\<forall>h' c' r'.
                     publishTweetWithRefresh env (l_credentials sy)
                       (publishOptions pid (previousTweetId sy) y) (l_history sy)
                       = Some (h', c', r') \<longrightarrow>
                     (\<exists>ext. h' = l_history sy @ ext
                        \<and> (\<forall>tok p. PostTweets tok p \<in> set ext \<longrightarrow>
                              in_reply_to_tweet_id p = twitterTweetId rx))"
    proof (intro allI impI)
      fix h' c' r'
      assume "publishTweetWithRefresh env (l_credentials sy)
                (publishOptions pid (previousTweetId sy) y) (l_history sy) = Some (h', c', r')"
      from posts_carry_previous[OF _ this] run(3) prev
      show "\<exists>ext. h' = l_history sy @ ext
              \<and> (\<forall>tok p. PostTweets tok p \<in> set ext \<longrightarrow>
                    in_reply_to_tweet_id p = twitterTweetId rx)"
        by simp
    qed
    from run sy target posts
    show "\<exists>sx hx cx rx sy.
               thread_loop env pid xs ?st0 = Some (sx, True)
               \<and> publishTweetWithRefresh env (l_credentials sx)
                    (publishOptions pid (previousTweetId sx) x) (l_history sx) = Some (hx, cx, rx)
               \<and> truthy (twitterTweetId rx)
               \<and> thread_loop env pid (xs @ [x]) ?st0 = Some (sy, True)
               \<and> replyToTweetId (publishOptions pid (previousTweetId sy) y) = twitterTweetId rx
               \<and> (\<forall>h' c' r'.
                     publishTweetWithRefresh env (l_credentials sy)
                       (publishOptions pid (previousTweetId sy) y) (l_history sy)
                       = Some (h', c', r') \<longrightarrow>
                     (\<exists>ext. h' = l_history sy @ ext
                        \<and> (\<forall>tok p. PostTweets tok p \<in> set ext \<longrightarrow>
                              in_reply_to_tweet_id p = twitterTweetId rx)))"
      by blast
  qed
  have "\<not> t_success ?res" "results ?res = l_results st1 @ [?e]"
    "list_all e_success (l_results st1)"
    "map e_tweetId (l_results st1) = map tweetId (filter unpublished pre)"
    "publishedCount (results ?res) = length (filter unpublished pre)"
    "t_message ?res =
           (if filter unpublished pre = [] then ''Failed to publish thread''
            else ''Thread publishing stopped after ''
                   @ toString (length (filter unpublished pre)) @ ''/''
                   @ toString (length threadTweets) @ '' tweets to maintain thread integrity'')"
    using summary new(1,3,4) len empty by simp_all
  with call persisted chain show ?thesis by blast
qed

text \<open>C3, at the thread of three tweets whose first is already published and whose third fails.\<close>

theorem thread_stops_at_first_failure_witness:
  "\<exists>res. publishThreadTweets one_post_provider sample_db ''u'' ''p''
             [third_tweet, published_tweet, second_tweet] [] =
           Some ([PostTweets ''old'' (reply_payload ''x0''),
                  UpdateTweetStatus ''p'' (Some ''t1'') ''x1'' (Some ''hello''),
                  PostTweets ''old'' (reply_payload ''x1'')], res)
       \<and> \<not> t_success res \<and> publishedCount (results res) = 1"
proof -
  let ?h1 = "[PostTweets ''old'' (reply_payload ''x0''),
              UpdateTweetStatus ''p'' (Some ''t1'') ''x1'' (Some ''hello'')]"
  let ?st1 = "\<lparr>l_history = ?h1, l_credentials = stored_credentials,
               previousTweetId = Some ''x1'',
               l_results = [entry_of second_tweet published_result]\<rparr>"
  have 1: "isAuthorized (verifyProjectAccess sample_db ''u'' ''p'')" by code_simp
  have 2: "getTwitterCredentials sample_db ''u'' = Some stored_credentials" by code_simp
  have 3: "sortedTweets [third_tweet, published_tweet, second_tweet] =
             [published_tweet, second_tweet] @ third_tweet # []"
    by code_simp
  have 4: "thread_loop one_post_provider ''p'' [published_tweet, second_tweet]
             (initial_state [] stored_credentials) = Some (?st1, True)"
    by code_simp
  have 5: "unpublished third_tweet" by code_simp
  have 6: "publishTweetWithRefresh one_post_provider (l_credentials ?st1)
             (publishOptions ''p'' (previousTweetId ?st1) third_tweet) (l_history ?st1) =
           Some (?h1 @ [PostTweets ''old'' (reply_payload ''x1'')], stored_credentials,
                 failed_result)"
    by code_simp
  have 7: "\<not> success failed_result" by code_simp
  have 8: "length (filter unpublished [published_tweet, second_tweet]) = 1" by code_simp
  from thread_stops_at_first_failure[OF 1 2 3 4 5 6 7] obtain res
    where "publishThreadTweets one_post_provider sample_db ''u'' ''p''
             [third_tweet, published_tweet, second_tweet] [] =
           Some (?h1 @ [PostTweets ''old'' (reply_payload ''x1'')], res)"
      "\<not> t_success res"
      "publishedCount (results res) = length (filter unpublished [published_tweet, second_tweet])"
    by blast
  with 8 show ?thesis by (intro exI[of _ res]) simp
qed

end
